theory Spec2Isabelle
  imports Main
begin

section \<open>Data model of the chat hooks (src/hooks/data/useCreateMessage.ts)\<close>

text \<open>
  The hooks read and write linked-data objects whose shapes are given by the ShEx file
  of the repository (ChatShape, ChatParticipationShape, ChatMessageShape, TypeRegistration,
  PrivateTypeIndex, MessageActivity) and by the WAC Authorization shape. A node reference
  \<^verbatim>\<open>{ '@id': u }\<close> is modelled by the URI \<open>u\<close> itself; an optional property is an
  \<open>option\<close>. Field names carry the prefix of their shape, because record fields share one
  name space (\<open>msg_id\<close> is \<^verbatim>\<open>'@id'\<close> of a message and so on).
\<close>

type_synonym uri = string

text \<open>A thrown value: \<open>Error m\<close> is \<^verbatim>\<open>new Error(m)\<close> thrown by a hook, \<open>Rejected m\<close> is the
  rejection of a call to a collaborator (network or store failure).\<close>

datatype error = Error string | Rejected string

record ChatMessageShape =
  msg_id :: uri
  msg_created :: string
  msg_content :: string
  msg_maker :: uri

text \<open>\<open>participant\<close> is read with optional chaining (\<^verbatim>\<open>p.participant?.['@id']\<close>) and
  \<open>references\<close> may be absent, so both are options.\<close>

record ChatParticipationShape =
  part_id :: uri
  dtstart :: string
  participant :: "uri option"
  references :: "uri list option"

record ChatShape =
  chat_id :: uri
  chat_type :: "uri option"
  author :: "uri option"
  created2 :: "string option"
  title :: "string option"
  participation :: "ChatParticipationShape list option"
  message :: "ChatMessageShape list option"

text \<open>\<open>instances\<close> is the property \<^verbatim>\<open>instance\<close> of a type registration (renamed: the word
  is reserved).\<close>

record TypeRegistration =
  reg_id :: uri
  reg_type :: uri
  forClass :: "uri list"
  instances :: "uri list option"

record PrivateTypeIndex =
  idx_id :: uri
  idx_references :: "TypeRegistration list option"

record Authorization =
  auth_id :: uri
  auth_type :: uri
  agent :: "uri list"
  accessTo :: "uri list"
  auth_default :: uri
  mode :: "uri list"

record MessageActivity =
  act_id :: uri
  act_type :: "uri list"
  actor :: uri
  act_context :: uri
  act_object :: uri
  act_target :: uri
  updated :: string

section \<open>Array helpers\<close>

text \<open>\<^verbatim>\<open>Array.prototype.find\<close> returns the first element that satisfies the predicate, as an
  object of the array: an assignment to one of its properties changes the array at that
  position. \<open>findIndex\<close> is the position of that element.\<close>

fun findIndex :: "('a \<Rightarrow> bool) \<Rightarrow> 'a list \<Rightarrow> nat option" where
  "findIndex P [] = None"
| "findIndex P (x # xs) = (if P x then Some 0 else map_option Suc (findIndex P xs))"

section \<open>NotificationProcessor: the transform of useProcessNotification\<close>

text \<open>
  A transform mutates the in-memory object it is given and may throw. Its model returns the
  thrown error (if any) together with the object as it is when the transform returns or
  throws, so that a mutation before a throw would be visible.
\<close>

definition processNotification_transform ::
  "uri \<Rightarrow> uri \<Rightarrow> ChatShape \<Rightarrow> error option \<times> ChatShape" where
  "processNotification_transform otherChat otherPerson ldo =
     (case participation ldo of
        None \<Rightarrow> (Some (Error ''no participation''), ldo)
      | Some ps \<Rightarrow>
          if length ps > 2
          then (Some (Error ''too much participation (only 2 people supported!)''), ldo)
          else (case findIndex (\<lambda>p. participant p = Some otherPerson) ps of
                  None \<Rightarrow> (Some (Error ''other person's participation not found''), ldo)
                | Some i \<Rightarrow>
                    if (case references (ps ! i) of None \<Rightarrow> False | Some rs \<Rightarrow> length rs > 0)
                    then (Some (Error ''participation alread references some other chat''), ldo)
                    else (None,
                          ldo\<lparr>participation :=
                                Some (ps[i := (ps ! i)\<lparr>references := Some [otherChat]\<rparr>])\<rparr>)))"

section \<open>The environment of a call\<close>

text \<open>
  What a hook observes from outside within one call: the values drawn from
  \<^verbatim>\<open>uuid.v4()\<close>, the readings of the clock, the failures of the collaborators and the
  response headers of a request, together with the imported helpers and constants that
  are not among the sources and are therefore parameters: \<^verbatim>\<open>getContainer\<close> (utils/helpers),
  \<^verbatim>\<open>parseLinkHeader\<close> (parse-link-header, as the map from a relation to the URL of its
  link, \<open>None\<close> for \<^verbatim>\<open>null\<close>), \<^verbatim>\<open>meeting.LongChat\<close>, \<^verbatim>\<open>acl.Read\<close>, \<^verbatim>\<open>acl.Write\<close>,
  \<^verbatim>\<open>acl.Control\<close> (utils/rdf-namespaces) and \<^verbatim>\<open>publicTypeIndex\<close> (rdf-namespaces).
\<close>

text \<open>A reading of the clock: the string \<^verbatim>\<open>toISOString()\<close> gives for it, and the calendar
  date \<^verbatim>\<open>dayjs()\<close> sees at it.\<close>

record instant =
  toISOString :: string
  year :: nat
  month :: nat
  day :: nat

datatype payload =
    ChatData ChatShape
  | ActivityData MessageActivity
  | AuthorizationData "Authorization list"

text \<open>The calls a hook makes to its collaborators: \<open>CreateCall uri method data\<close> for the
  mutation of \<^verbatim>\<open>useCreateRdfDocument\<close>, \<open>UpdateCall uri subject\<close> for that of
  \<^verbatim>\<open>useUpdateLdoDocument\<close>, \<open>DeleteCall uri\<close> for that of \<^verbatim>\<open>useDeleteRdfDocument\<close>,
  \<open>FetchCall uri method\<close> for \<^verbatim>\<open>fetch\<close>.\<close>

datatype call =
    CreateCall uri "string option" payload
  | UpdateCall uri uri
  | DeleteCall uri
  | FetchCall uri string

record env =
  uuid_v4 :: "nat \<Rightarrow> string"
  clock :: "nat \<Rightarrow> instant"
  rejects :: "call \<Rightarrow> error option"
  linkHeader :: "uri \<Rightarrow> string option"
  getContainer :: "uri \<Rightarrow> uri"
  parseLinkHeader :: "string option \<Rightarrow> (string \<Rightarrow> uri option) option"
  meeting_LongChat :: uri
  acl_Read :: uri
  acl_Write :: uri
  acl_Control :: uri
  publicTypeIndex :: uri

text \<open>\<open>uuid_v4 env n\<close> is the value of the \<open>n\<close>-th evaluation of \<^verbatim>\<open>uuid.v4()\<close> in the call
  (from 0), \<open>clock env n\<close> the \<open>n\<close>-th reading of the clock (\<^verbatim>\<open>dayjs()\<close> or
  \<^verbatim>\<open>new Date()\<close>), \<open>rejects env c\<close> the error with which the collaborator rejects the
  call \<open>c\<close> (if it does), \<open>linkHeader env u\<close> the \<^verbatim>\<open>Link\<close> header of the response to a
  HEAD request on \<open>u\<close>.\<close>

section \<open>The pod and the document services\<close>

text \<open>
  The state outside the hooks: the linked-data objects of the chat and type-index
  documents, by document URI and subject; the documents created so far, by the URI they
  were sent to (the container, for a POST); and the trace of the calls made to the
  collaborators, failed ones included.
\<close>

record world =
  chatLdo :: "uri \<times> uri \<Rightarrow> ChatShape option"
  indexLdo :: "uri \<times> uri \<Rightarrow> PrivateTypeIndex option"
  resources :: "(uri \<times> payload) list"
  calls :: "call list"

definition documentExists :: "uri \<Rightarrow> world \<Rightarrow> bool" where
  "documentExists u w = list_ex (\<lambda>r. fst r = u) (resources w)"

definition readChatLdo :: "world \<Rightarrow> uri \<Rightarrow> uri \<Rightarrow> ChatShape" where
  "readChatLdo w u subject =
     (case chatLdo w (u, subject) of
        Some ldo \<Rightarrow> ldo
      | None \<Rightarrow> \<lparr>chat_id = subject, chat_type = None, author = None, created2 = None,
                 title = None, participation = None, message = None\<rparr>)"

definition readIndexLdo :: "world \<Rightarrow> uri \<Rightarrow> uri \<Rightarrow> PrivateTypeIndex" where
  "readIndexLdo w u subject =
     (case indexLdo w (u, subject) of
        Some ldo \<Rightarrow> ldo
      | None \<Rightarrow> \<lparr>idx_id = subject, idx_references = None\<rparr>)"

text \<open>
  Modelled from the spec: the mutation of \<^verbatim>\<open>useUpdateLdoDocument\<close> (./useRdfDocument, not
  among the sources), for the chat shape. Section 6: \<^verbatim>\<open>update(uri, subject, transformFn)
  -> ok|error\<close>, where the transform mutates an in-memory object and is applied by
  read-modify-write against \<open>uri\<close>; section 7: every error is surfaced, none is retried.
  A rejected call and a transform that throws persist nothing.
\<close>

definition updateChatLdo ::
  "env \<Rightarrow> uri \<Rightarrow> uri \<Rightarrow> (ChatShape \<Rightarrow> error option \<times> ChatShape) \<Rightarrow> world
     \<Rightarrow> (error + unit) \<times> world" where
  "updateChatLdo env u subject transform w =
     (let w1 = w\<lparr>calls := calls w @ [UpdateCall u subject]\<rparr> in
      case rejects env (UpdateCall u subject) of
        Some e \<Rightarrow> (Inl e, w1)
      | None \<Rightarrow>
          (case transform (readChatLdo w u subject) of
             (Some e, _) \<Rightarrow> (Inl e, w1)
           | (None, ldo') \<Rightarrow>
               (Inr (), w1\<lparr>chatLdo := (chatLdo w)((u, subject) := Some ldo')\<rparr>)))"

text \<open>Modelled from the spec: the same mutation of \<^verbatim>\<open>useUpdateLdoDocument\<close>, for the
  private type index shape.\<close>

definition updateIndexLdo ::
  "env \<Rightarrow> uri \<Rightarrow> uri \<Rightarrow> (PrivateTypeIndex \<Rightarrow> error option \<times> PrivateTypeIndex) \<Rightarrow> world
     \<Rightarrow> (error + unit) \<times> world" where
  "updateIndexLdo env u subject transform w =
     (let w1 = w\<lparr>calls := calls w @ [UpdateCall u subject]\<rparr> in
      case rejects env (UpdateCall u subject) of
        Some e \<Rightarrow> (Inl e, w1)
      | None \<Rightarrow>
          (case transform (readIndexLdo w u subject) of
             (Some e, _) \<Rightarrow> (Inl e, w1)
           | (None, ldo') \<Rightarrow>
               (Inr (), w1\<lparr>indexLdo := (indexLdo w)((u, subject) := Some ldo')\<rparr>)))"

text \<open>Modelled from the spec: the mutation of \<^verbatim>\<open>useCreateRdfDocument\<close> (./useRdfDocument,
  not among the sources). Section 6: \<^verbatim>\<open>create(uri, data) -> ok|error\<close>; an accepted call
  adds the document, a rejected one adds nothing.\<close>

definition createRdfDocument ::
  "env \<Rightarrow> uri \<Rightarrow> string option \<Rightarrow> payload \<Rightarrow> world \<Rightarrow> (error + unit) \<times> world" where
  "createRdfDocument env u method data w =
     (let w1 = w\<lparr>calls := calls w @ [CreateCall u method data]\<rparr> in
      case rejects env (CreateCall u method data) of
        Some e \<Rightarrow> (Inl e, w1)
      | None \<Rightarrow> (Inr (), w1\<lparr>resources := resources w @ [(u, data)]\<rparr>))"

text \<open>Modelled from the spec: the mutation of \<^verbatim>\<open>useDeleteRdfDocument\<close> (./useRdfDocument,
  not among the sources). Section 6: \<^verbatim>\<open>delete(uri) -> ok|error\<close>; an accepted call
  removes the document at \<open>uri\<close>, a rejected one removes nothing.\<close>

definition deleteRdfDocument :: "env \<Rightarrow> uri \<Rightarrow> world \<Rightarrow> (error + unit) \<times> world" where
  "deleteRdfDocument env u w =
     (let w1 = w\<lparr>calls := calls w @ [DeleteCall u]\<rparr> in
      case rejects env (DeleteCall u) of
        Some e \<Rightarrow> (Inl e, w1)
      | None \<Rightarrow> (Inr (), w1\<lparr>resources := filter (\<lambda>r. fst r \<noteq> u) (resources w)\<rparr>))"

text \<open>\<^verbatim>\<open>fetch(uri, { method: 'HEAD' })\<close> followed by \<^verbatim>\<open>response.headers.get('link')\<close>: the
  request is rejected, or it answers with the \<^verbatim>\<open>Link\<close> header of the response
  (\<open>None\<close> for \<^verbatim>\<open>null\<close>).\<close>

definition fetchHead :: "env \<Rightarrow> uri \<Rightarrow> world \<Rightarrow> (error + string option) \<times> world" where
  "fetchHead env u w =
     (let w1 = w\<lparr>calls := calls w @ [FetchCall u ''HEAD'']\<rparr> in
      case rejects env (FetchCall u ''HEAD'') of
        Some e \<Rightarrow> (Inl e, w1)
      | None \<Rightarrow> (Inr (linkHeader env u), w1))"

section \<open>NotificationProcessor: useProcessNotification\<close>

text \<open>The update of the chat is awaited first; a rejection leaves the function there, and
  only a fulfilled update is followed by the deletion of the notification.\<close>

definition useProcessNotification ::
  "env \<Rightarrow> uri \<Rightarrow> uri \<Rightarrow> uri \<Rightarrow> uri \<Rightarrow> world \<Rightarrow> (error + unit) \<times> world" where
  "useProcessNotification env notificationId chat otherChat otherPerson w =
     (case updateChatLdo env chat chat (processNotification_transform otherChat otherPerson) w of
        (Inl e, w1) \<Rightarrow> (Inl e, w1)
      | (Inr _, w1) \<Rightarrow> deleteRdfDocument env notificationId w1)"

section \<open>NotificationEmitter: useCreateMessageNotification\<close>

definition useCreateMessageNotification ::
  "env \<Rightarrow> uri \<Rightarrow> uri \<Rightarrow> uri \<Rightarrow> uri \<Rightarrow> string \<Rightarrow> world \<Rightarrow> (error + unit) \<times> world" where
  "useCreateMessageNotification env inbox senderId messageId chatId updated_at w =
     createRdfDocument env inbox (Some ''POST'')
       (ActivityData
          \<lparr>act_id = '''',
           act_type = [''Add''],
           actor = senderId,
           act_context = ''https://www.pod-chat.com/LongChatMessage'',
           act_object = messageId,
           act_target = chatId,
           updated = updated_at\<rparr>) w"

section \<open>MessageAppender: useCreateMessage\<close>

text \<open>
  Modelled from the spec: \<^verbatim>\<open>dayjs().format('YYYY/MM/DD')\<close>, the date of section 4.1
  (\<^verbatim>\<open><container-of-chat>/<date:YYYY/MM/DD>/chat.ttl\<close>). dayjs is a library, not code
  of the repository; for these tokens it writes the year on at least four digits and the
  month and the day of the month on at least two, padded with zeros, with the slashes of
  the pattern between them. \<open>digitChar\<close> is only applied to numbers below ten.
\<close>

definition digitChar :: "nat \<Rightarrow> char" where
  "digitChar d = ''0123456789'' ! d"

fun digits :: "nat \<Rightarrow> string" where
  "digits n = (if n < 10 then [digitChar n] else digits (n div 10) @ [digitChar (n mod 10)])"

definition padStart :: "nat \<Rightarrow> char \<Rightarrow> string \<Rightarrow> string" where
  "padStart n c s = replicate (n - length s) c @ s"

definition format_YYYY_MM_DD :: "instant \<Rightarrow> string" where
  "format_YYYY_MM_DD t =
     padStart 4 CHR ''0'' (digits (year t)) @ ''/'' @
     padStart 2 CHR ''0'' (digits (month t)) @ ''/'' @
     padStart 2 CHR ''0'' (digits (day t))"

text \<open>Reading a number back from its digits: used to show that the format loses nothing
  of a date.\<close>

definition digitValue :: "char \<Rightarrow> nat" where
  "digitValue c = of_char c - 48"

definition readNat :: "string \<Rightarrow> nat" where
  "readNat s = foldl (\<lambda>a c. 10 * a + digitValue c) 0 s"

text \<open>The calendar date of a reading of the clock, and the dates of the calendar.\<close>

definition calendarDate :: "instant \<Rightarrow> nat \<times> nat \<times> nat" where
  "calendarDate t = (year t, month t, day t)"

definition validDate :: "nat \<times> nat \<times> nat \<Rightarrow> bool" where
  "validDate d = (case d of (y, m, dd) \<Rightarrow> 1 \<le> m \<and> m \<le> 12 \<and> 1 \<le> dd \<and> dd \<le> 31)"

record CreateMessageResult =
  messageId :: uri
  todayChat :: uri
  createdAt :: string

text \<open>The transform of useCreateMessage: \<^verbatim>\<open>ldo.message ??= []\<close>, then the push.\<close>

definition createMessage_transform ::
  "uri \<Rightarrow> string \<Rightarrow> string \<Rightarrow> uri \<Rightarrow> ChatShape \<Rightarrow> error option \<times> ChatShape" where
  "createMessage_transform new_id created_at content senderId ldo =
     (None,
      ldo\<lparr>message :=
            Some ((case message ldo of None \<Rightarrow> [] | Some ms \<Rightarrow> ms) @
                  [\<lparr>msg_id = new_id, msg_created = created_at, msg_content = content,
                    msg_maker = senderId\<rparr>])\<rparr>)"

text \<open>The clock is read three times, in this order: \<^verbatim>\<open>dayjs()\<close> for \<open>chatFile\<close>,
  \<^verbatim>\<open>new Date()\<close> for \<open>createdAt\<close>, and \<^verbatim>\<open>dayjs()\<close> again for the \<open>uri\<close> of the mutation.\<close>

definition useCreateMessage ::
  "env \<Rightarrow> uri \<Rightarrow> string \<Rightarrow> uri \<Rightarrow> world \<Rightarrow> (error + CreateMessageResult) \<times> world" where
  "useCreateMessage env senderId content chat w =
     (let container = getContainer env chat;
          chatFile = container @ format_YYYY_MM_DD (clock env 0) @ ''/chat.ttl'';
          new_id = chatFile @ ''#msg-'' @ uuid_v4 env 0;
          created_at = toISOString (clock env 1)
      in case updateChatLdo env
                (getContainer env chat @ format_YYYY_MM_DD (clock env 2) @ ''/chat.ttl'')
                chat
                (createMessage_transform new_id created_at content senderId) w of
           (Inl e, w1) \<Rightarrow> (Inl e, w1)
         | (Inr _, w1) \<Rightarrow>
             (Inr \<lparr>messageId = new_id, todayChat = chatFile, createdAt = created_at\<rparr>, w1))"

section \<open>ChatEstablisher: useCreateChat\<close>

record CreateChatResult =
  chatContainer :: uri
  chatFile :: uri
  chatId :: uri

text \<open>The chat document that is saved. \<open>otherChat\<close> is an optional parameter and the
  conditional tests its truthiness: an absent value and the empty string give the empty
  list. The participation of \<open>me\<close> has no \<open>references\<close> property.\<close>

definition newChat ::
  "uri \<Rightarrow> uri \<Rightarrow> string \<Rightarrow> string \<Rightarrow> string \<Rightarrow> uri \<Rightarrow> uri \<Rightarrow> uri option \<Rightarrow> ChatShape" where
  "newChat chat_file chat_iri date uuid1 uuid2 me otherPerson otherChat =
     \<lparr>chat_id = chat_iri,
      chat_type = Some ''LongChat'',
      author = Some me,
      created2 = Some date,
      title = Some ''Hospex chat channel'',
      participation = Some
        [\<lparr>part_id = chat_file @ ''#'' @ uuid1,
          dtstart = date,
          participant = Some me,
          references = None\<rparr>,
         \<lparr>part_id = chat_file @ ''#'' @ uuid2,
          dtstart = date,
          participant = Some otherPerson,
          references =
            Some (case otherChat of
                    None \<Rightarrow> []
                  | Some oc \<Rightarrow> if oc = '''' then [] else [oc])\<rparr>],
      message = None\<rparr>"

text \<open>The two authorizations that are saved to the ACL resource.\<close>

definition newAuthorizations :: "env \<Rightarrow> uri \<Rightarrow> uri \<Rightarrow> uri \<Rightarrow> uri \<Rightarrow> Authorization list" where
  "newAuthorizations env aclUri chat_container me otherPerson =
     [\<lparr>auth_id = aclUri @ ''#ReadWriteControl'',
       auth_type = ''Authorization'',
       agent = [me],
       accessTo = [chat_container],
       auth_default = chat_container,
       mode = [acl_Read env, acl_Write env, acl_Control env]\<rparr>,
      \<lparr>auth_id = aclUri @ ''#Read'',
       auth_type = ''Authorization'',
       agent = [otherPerson],
       accessTo = [chat_container],
       auth_default = chat_container,
       mode = [acl_Read env]\<rparr>]"

text \<open>The transform of the private type index: find the first registration for LongChat and
  push the chat to its instances, or push a new registration. \<open>fresh\<close> is the value of
  \<^verbatim>\<open>uuid.v4()\<close>, which only the second branch evaluates.\<close>

definition isLongChatRegistration :: "env \<Rightarrow> TypeRegistration \<Rightarrow> bool" where
  "isLongChatRegistration env registration =
     list_ex (\<lambda>fc. fc = meeting_LongChat env \<or> fc = ''LongChat'') (forClass registration)"

definition createChat_transform ::
  "env \<Rightarrow> uri \<Rightarrow> string \<Rightarrow> PrivateTypeIndex \<Rightarrow> error option \<times> PrivateTypeIndex" where
  "createChat_transform env chat_iri fresh ldo =
     (let new_registration =
            \<lparr>reg_id = publicTypeIndex env @ ''#'' @ fresh,
             reg_type = ''TypeRegistration'',
             forClass = [''LongChat''],
             instances = Some [chat_iri]\<rparr>
      in case idx_references ldo of
           None \<Rightarrow> (None, ldo\<lparr>idx_references := Some ([] @ [new_registration])\<rparr>)
         | Some rs \<Rightarrow>
             (case findIndex (isLongChatRegistration env) rs of
                Some i \<Rightarrow>
                  (None,
                   ldo\<lparr>idx_references := Some
                         (rs[i := (rs ! i)\<lparr>instances := Some
                                   ((case instances (rs ! i) of None \<Rightarrow> [] | Some is \<Rightarrow> is) @
                                    [chat_iri])\<rparr>])\<rparr>)
              | None \<Rightarrow> (None, ldo\<lparr>idx_references := Some (rs @ [new_registration])\<rparr>)))"

text \<open>\<^verbatim>\<open>links?.acl?.url\<close>: the URL of the \<open>acl\<close> relation, if the header parses and has one.\<close>

definition aclUrl :: "env \<Rightarrow> string option \<Rightarrow> uri option" where
  "aclUrl env header =
     (case parseLinkHeader env header of None \<Rightarrow> None | Some links \<Rightarrow> links ''acl'')"

text \<open>The four awaited steps in their order; a rejection or the throw after the HEAD request
  ends the call. \<^verbatim>\<open>!aclUri\<close> holds for an absent URL and for the empty string.\<close>

definition useCreateChat ::
  "env \<Rightarrow> uri \<Rightarrow> uri \<Rightarrow> uri option \<Rightarrow> uri \<Rightarrow> uri \<Rightarrow> world
     \<Rightarrow> (error + CreateChatResult) \<times> world" where
  "useCreateChat env me otherPerson otherChat hospexContainer privateTypeIndex w =
     (let chat_container = hospexContainer @ ''messages/'' @ uuid_v4 env 0 @ ''/'';
          chat_file = chat_container @ ''index.ttl'';
          chat_iri = chat_file @ ''#this'';
          date = toISOString (clock env 0)
      in case createRdfDocument env chat_file None
                (ChatData (newChat chat_file chat_iri date (uuid_v4 env 1) (uuid_v4 env 2)
                             me otherPerson otherChat)) w of
           (Inl e, w1) \<Rightarrow> (Inl e, w1)
         | (Inr _, w1) \<Rightarrow>
             (case fetchHead env chat_container w1 of
                (Inl e, w2) \<Rightarrow> (Inl e, w2)
              | (Inr header, w2) \<Rightarrow>
                  (case aclUrl env header of
                     None \<Rightarrow>
                       (Inl (Error ''We could not find WAC link for a given resource''), w2)
                   | Some aclUri \<Rightarrow>
                       if aclUri = ''''
                       then (Inl (Error ''We could not find WAC link for a given resource''), w2)
                       else
                         (case createRdfDocument env aclUri None
                                 (AuthorizationData
                                    (newAuthorizations env aclUri chat_container me otherPerson))
                                 w2 of
                            (Inl e, w3) \<Rightarrow> (Inl e, w3)
                          | (Inr _, w3) \<Rightarrow>
                              (case updateIndexLdo env privateTypeIndex privateTypeIndex
                                      (createChat_transform env chat_iri (uuid_v4 env 3)) w3 of
                                 (Inl e, w4) \<Rightarrow> (Inl e, w4)
                               | (Inr _, w4) \<Rightarrow>
                                   (Inr \<lparr>chatContainer = chat_container, chatFile = chat_file,
                                         chatId = chat_iri\<rparr>, w4))))))"

section \<open>The validation errors of NotificationProcessor\<close>

abbreviation no_participation_error :: error where
  "no_participation_error \<equiv> Error ''no participation''"

abbreviation too_much_participation_error :: error where
  "too_much_participation_error \<equiv> Error ''too much participation (only 2 people supported!)''"

abbreviation participation_not_found_error :: error where
  "participation_not_found_error \<equiv> Error ''other person's participation not found''"

abbreviation already_references_error :: error where
  "already_references_error \<equiv> Error ''participation alread references some other chat''"

abbreviation no_WAC_link_error :: error where
  "no_WAC_link_error \<equiv> Error ''We could not find WAC link for a given resource''"

section \<open>Example inputs\<close>

text \<open>Bob's copy of a chat with Alice, on Bob's pod, and the identifiers of both.\<close>

definition alice :: uri where
  "alice = ''https://alice.example/profile/card#me''"

definition bob :: uri where
  "bob = ''https://bob.example/profile/card#me''"

definition alicesChatId :: uri where
  "alicesChatId = ''https://alice.example/hospex/messages/a1/index.ttl#this''"

definition bobsChatId :: uri where
  "bobsChatId = ''https://bob.example/hospex/messages/b1/index.ttl#this''"

definition bobsParticipation :: ChatParticipationShape where
  "bobsParticipation =
     \<lparr>part_id = ''https://bob.example/hospex/messages/b1/index.ttl#p1'',
      dtstart = ''2024-05-17T09:30:00.000Z'', participant = Some bob, references = None\<rparr>"

definition alicesParticipation :: "uri list option \<Rightarrow> ChatParticipationShape" where
  "alicesParticipation refs =
     \<lparr>part_id = ''https://bob.example/hospex/messages/b1/index.ttl#p2'',
      dtstart = ''2024-05-17T09:30:00.000Z'', participant = Some alice, references = refs\<rparr>"

definition carolsParticipation :: ChatParticipationShape where
  "carolsParticipation =
     \<lparr>part_id = ''https://bob.example/hospex/messages/b1/index.ttl#p3'',
      dtstart = ''2024-05-18T10:00:00.000Z'',
      participant = Some ''https://carol.example/profile/card#me'', references = None\<rparr>"

definition davesParticipation :: ChatParticipationShape where
  "davesParticipation =
     \<lparr>part_id = ''https://bob.example/hospex/messages/b1/index.ttl#p4'',
      dtstart = ''2024-05-19T11:00:00.000Z'',
      participant = Some ''https://dave.example/profile/card#me'', references = None\<rparr>"

definition bobsChatWith :: "ChatParticipationShape list option \<Rightarrow> ChatShape" where
  "bobsChatWith entries =
     \<lparr>chat_id = bobsChatId,
      chat_type = Some ''LongChat'', author = Some bob,
      created2 = Some ''2024-05-17T09:30:00.000Z'', title = Some ''Hospex chat channel'',
      participation = entries, message = None\<rparr>"

text \<open>An environment whose collaborators fail as the argument says, and Bob's pod with one
  notification in its inbox and Bob's chat in the given state. The helpers of this
  environment are examples only: its \<open>getContainer\<close> cuts a URI after its last slash, its
  \<open>linkHeader\<close> answers \<^verbatim>\<open><u.acl>; rel=acl\<close> for the resource \<open>u\<close>, and its
  \<open>parseLinkHeader\<close> reads the URL between the angle brackets as the \<open>acl\<close> relation.\<close>

definition exampleInstant :: instant where
  "exampleInstant = \<lparr>toISOString = ''2024-05-17T09:30:00.000Z'', year = 2024, month = 5, day = 17\<rparr>"

definition exampleEnv :: "(call \<Rightarrow> error option) \<Rightarrow> env" where
  "exampleEnv failures =
     \<lparr>uuid_v4 = (\<lambda>n. if n = 0 then ''b1'' else if n = 1 then ''p1'' else if n = 2 then ''p2'' else ''r1''),
      clock = (\<lambda>n. exampleInstant),
      rejects = failures,
      linkHeader = (\<lambda>u. Some (''<'' @ u @ ''.acl>; rel=acl'')),
      getContainer = (\<lambda>u. rev (dropWhile (\<lambda>c. c \<noteq> CHR ''/'') (rev u))),
      parseLinkHeader = (\<lambda>h. case h of None \<Rightarrow> None
         | Some v \<Rightarrow> Some (\<lambda>rel. if rel = ''acl'' then Some (takeWhile (\<lambda>c. c \<noteq> CHR ''>'') (tl v)) else None)),
      meeting_LongChat = ''http://www.w3.org/ns/pim/meeting#LongChat'',
      acl_Read = ''http://www.w3.org/ns/auth/acl#Read'',
      acl_Write = ''http://www.w3.org/ns/auth/acl#Write'',
      acl_Control = ''http://www.w3.org/ns/auth/acl#Control'',
      publicTypeIndex = ''http://www.w3.org/ns/solid/terms#publicTypeIndex''\<rparr>"

definition bobsNotification :: uri where
  "bobsNotification = ''https://bob.example/inbox/n1''"

definition offline :: "call \<Rightarrow> error option" where
  "offline c = (case c of UpdateCall u s \<Rightarrow> Some (Rejected ''Failed to fetch'') | _ \<Rightarrow> None)"

definition online :: "call \<Rightarrow> error option" where
  "online c = None"


definition exampleActivity :: MessageActivity where
  "exampleActivity = \<lparr>act_id = '''', act_type = [''Add''], actor = alice,
      act_context = ''https://www.pod-chat.com/LongChatMessage'',
      act_object = alicesChatId, act_target = alicesChatId,
      updated = ''2024-05-17T09:30:00.000Z''\<rparr>"

definition bobsPod :: "ChatShape option \<Rightarrow> world" where
  "bobsPod c =
     \<lparr>chatLdo = (\<lambda>k. if k = (bobsChatId, bobsChatId) then c else None),
      indexLdo = (\<lambda>k. None),
      resources = [(bobsNotification, ActivityData exampleActivity)],
      calls = []\<rparr>"

section \<open>Reading the trace of a run\<close>

definition newCalls :: "world \<Rightarrow> world \<Rightarrow> call list" where
  "newCalls w w' = drop (length (calls w)) (calls w')"

fun createdChats :: "call list \<Rightarrow> (uri \<times> ChatShape) list" where
  "createdChats [] = []"
| "createdChats (CreateCall u m (ChatData d) # cs) = (u, d) # createdChats cs"
| "createdChats (c # cs) = createdChats cs"

fun createdAuthorizations :: "call list \<Rightarrow> (uri \<times> Authorization list) list" where
  "createdAuthorizations [] = []"
| "createdAuthorizations (CreateCall u m (AuthorizationData d) # cs) = (u, d) # createdAuthorizations cs"
| "createdAuthorizations (c # cs) = createdAuthorizations cs"

fun updatedDocuments :: "call list \<Rightarrow> uri list" where
  "updatedDocuments [] = []"
| "updatedDocuments (UpdateCall u s # cs) = u # updatedDocuments cs"
| "updatedDocuments (c # cs) = updatedDocuments cs"

section \<open>Example inputs for ChatEstablisher\<close>

definition bobsHospex :: uri where
  "bobsHospex = ''https://bob.example/hospex/''"

definition bobsTypeIndex :: uri where
  "bobsTypeIndex = ''https://bob.example/settings/privateTypeIndex.ttl''"

definition noLinkHeader :: env where
  "noLinkHeader = (exampleEnv online)\<lparr>linkHeader := (\<lambda>u. None)\<rparr>"

definition bobsIndexWith :: "TypeRegistration list option \<Rightarrow> PrivateTypeIndex" where
  "bobsIndexWith registrations = \<lparr>idx_id = bobsTypeIndex, idx_references = registrations\<rparr>"

definition longChatRegistration :: "uri list option \<Rightarrow> TypeRegistration" where
  "longChatRegistration chats =
     \<lparr>reg_id = ''https://bob.example/settings/privateTypeIndex.ttl#chats'',
      reg_type = ''TypeRegistration'',
      forClass = [''http://www.w3.org/ns/pim/meeting#LongChat''],
      instances = chats\<rparr>"

definition bookmarkRegistration :: TypeRegistration where
  "bookmarkRegistration =
     \<lparr>reg_id = ''https://bob.example/settings/privateTypeIndex.ttl#bookmarks'',
      reg_type = ''TypeRegistration'',
      forClass = [''http://www.w3.org/2002/01/bookmark#Bookmark''],
      instances = None\<rparr>"

definition newRegistration :: TypeRegistration where
  "newRegistration =
     \<lparr>reg_id = ''http://www.w3.org/ns/solid/terms#publicTypeIndex#r1'',
      reg_type = ''TypeRegistration'',
      forClass = [''LongChat''],
      instances = Some [bobsChatId]\<rparr>"

text \<open>The morning after \<open>exampleInstant\<close>, and Alice's pod before any chat is written.\<close>

definition nextDay :: instant where
  "nextDay = \<lparr>toISOString = ''2024-05-18T07:05:00.000Z'', year = 2024, month = 5, day = 18\<rparr>"

definition alicesPod :: world where
  "alicesPod = \<lparr>chatLdo = (\<lambda>k. None), indexLdo = (\<lambda>k. None), resources = [], calls = []\<rparr>"

text \<open>A call of useCreateMessage that begins a millisecond before midnight: its first two
  readings of the clock fall on the 17th, the third on the 18th. \<open>eveningEnv\<close> is the
  same evening with all readings before midnight.\<close>

definition beforeMidnight :: instant where
  "beforeMidnight = \<lparr>toISOString = ''2024-05-17T23:59:59.999Z'', year = 2024, month = 5, day = 17\<rparr>"

definition afterMidnight :: instant where
  "afterMidnight = \<lparr>toISOString = ''2024-05-18T00:00:00.001Z'', year = 2024, month = 5, day = 18\<rparr>"

definition eveningEnv :: env where
  "eveningEnv = (exampleEnv online)\<lparr>clock := (\<lambda>n. beforeMidnight)\<rparr>"

definition midnightEnv :: env where
  "midnightEnv = (exampleEnv online)\<lparr>clock := (\<lambda>n. if n < 2 then beforeMidnight else afterMidnight)\<rparr>"

section \<open>Facts about the examples and the array helpers\<close>

lemmas example_defs = alice_def bob_def alicesChatId_def bobsChatId_def bobsParticipation_def
  alicesParticipation_def carolsParticipation_def davesParticipation_def bobsChatWith_def

lemma participation_bobsChatWith: "participation (bobsChatWith entries) = entries"
  by (simp add: bobsChatWith_def)

lemma bobsChatWith_update:
  "(bobsChatWith entries)\<lparr>participation := entries'\<rparr> = bobsChatWith entries'"
  by (simp add: bobsChatWith_def)

lemma alicesParticipation_update:
  "(alicesParticipation refs)\<lparr>references := refs'\<rparr> = alicesParticipation refs'"
  by (simp add: alicesParticipation_def)

lemma findIndex_Some_iff:
  "findIndex P xs = Some i \<longleftrightarrow> i < length xs \<and> P (xs ! i) \<and> (\<forall>j<i. \<not> P (xs ! j))"
proof (induction xs arbitrary: i)
  case Nil
  then show ?case by simp
next
  case (Cons x xs)
  show ?case
  proof (cases "P x")
    case True
    then show ?thesis by (cases i) auto
  next
    case False
    show ?thesis
    proof (cases i)
      case 0
      with False show ?thesis by auto
    next
      case (Suc k)
      have "(\<forall>j<Suc k. \<not> P ((x # xs) ! j)) \<longleftrightarrow> (\<forall>j<k. \<not> P (xs ! j))"
        using False by (auto simp: less_Suc_eq_0_disj)
      with False Suc Cons.IH [of k] show ?thesis by auto
    qed
  qed
qed

lemma findIndex_None_iff: "findIndex P xs = None \<longleftrightarrow> (\<forall>x\<in>set xs. \<not> P x)"
  by (induction xs) auto

lemma find_findIndex: "find P xs = map_option (\<lambda>i. xs ! i) (findIndex P xs)"
  by (induction xs) (auto simp: option.map_comp comp_def)

lemma findIndex_SomeD: "findIndex P xs = Some i \<Longrightarrow> \<exists>x\<in>set xs. P x"
  using findIndex_None_iff [of P xs] by auto

lemma findIndex_list_update:
  "i < length xs \<Longrightarrow> P y = P (xs ! i) \<Longrightarrow> findIndex P (xs[i := y]) = findIndex P xs"
proof (induction xs arbitrary: i)
  case Nil
  then show ?case by simp
next
  case (Cons x xs)
  then show ?case by (cases i) auto
qed

section \<open>NotificationProcessor: the guards of the transform\<close>

lemma transform_guard:
  assumes "participation ldo = Some ps" "length ps \<le> 2"
    "find (\<lambda>p. participant p = Some otherPerson) ps = Some p"
    "references p = Some rs" "rs \<noteq> []"
  shows "processNotification_transform otherChat otherPerson ldo =
      (Some already_references_error, ldo)"
  using assms
  by (auto simp: processNotification_transform_def find_findIndex split: option.splits)

lemma transform_error_unchanged:
  "fst (processNotification_transform otherChat otherPerson ldo) = Some e \<Longrightarrow>
   snd (processNotification_transform otherChat otherPerson ldo) = ldo"
  by (auto simp: processNotification_transform_def split: option.splits if_splits)

lemma transform_success:
  assumes "processNotification_transform otherChat otherPerson ldo = (None, ldo')"
  obtains ps i where "participation ldo = Some ps" "length ps \<le> 2"
    "findIndex (\<lambda>p. participant p = Some otherPerson) ps = Some i"
    "references (ps ! i) = None \<or> references (ps ! i) = Some []"
    "ldo' = ldo\<lparr>participation := Some (ps[i := (ps ! i)\<lparr>references := Some [otherChat]\<rparr>])\<rparr>"
  using assms
  by (auto simp: processNotification_transform_def split: option.splits if_splits)

lemma transform_relink:
  assumes "processNotification_transform prevChat otherPerson prevLdo = (None, ldo)"
  shows "processNotification_transform otherChat otherPerson ldo =
      (Some already_references_error, ldo)"
proof -
  from assms obtain ps i where ps: "participation prevLdo = Some ps" "length ps \<le> 2"
    and i: "findIndex (\<lambda>p. participant p = Some otherPerson) ps = Some i"
    and ldo: "ldo = prevLdo\<lparr>participation := Some (ps[i := (ps ! i)\<lparr>references := Some [prevChat]\<rparr>])\<rparr>"
    by (rule transform_success)
  let ?ps' = "ps[i := (ps ! i)\<lparr>references := Some [prevChat]\<rparr>]"
  from i have len: "i < length ps" by (simp add: findIndex_Some_iff)
  then have "findIndex (\<lambda>p. participant p = Some otherPerson) ?ps' = Some i"
    using i by (simp add: findIndex_list_update)
  moreover have "references (?ps' ! i) = Some [prevChat]" using len by simp
  moreover have "participation ldo = Some ?ps'" "length ?ps' \<le> 2"
    using ldo ps by simp_all
  ultimately show ?thesis
    by (simp add: processNotification_transform_def)
qed

lemma transform_keeps_linked_entry:
  assumes "participation ldo = Some ps" "k < length ps"
    "references (ps ! k) = Some rs" "rs \<noteq> []"
  shows "\<exists>ps'. participation (snd (processNotification_transform otherChat otherPerson ldo)) = Some ps'
     \<and> length ps' = length ps \<and> ps' ! k = ps ! k"
proof (cases "fst (processNotification_transform otherChat otherPerson ldo)")
  case (Some e)
  then show ?thesis using assms by (simp add: transform_error_unchanged)
next
  case None
  then have "processNotification_transform otherChat otherPerson ldo =
      (None, snd (processNotification_transform otherChat otherPerson ldo))"
    by (simp add: prod_eq_iff)
  then obtain ps0 i where ps0: "participation ldo = Some ps0"
    and i: "references (ps0 ! i) = None \<or> references (ps0 ! i) = Some []"
    and r: "snd (processNotification_transform otherChat otherPerson ldo) =
        ldo\<lparr>participation := Some (ps0[i := (ps0 ! i)\<lparr>references := Some [otherChat]\<rparr>])\<rparr>"
    by (rule transform_success)
  from ps0 assms have "ps0 = ps" by simp
  with i assms have "i \<noteq> k" by auto
  with r \<open>ps0 = ps\<close> show ?thesis by simp
qed

text \<open>
  Claim C1. In the transform of useProcessNotification, when the entry that \<^verbatim>\<open>find\<close>
  locates for \<open>otherPerson\<close> already has a non-empty \<open>references\<close> list, the transform
  throws the "already references" error (the message reads \<^verbatim>\<open>participation alread
  references some other chat\<close>) and the chat object is exactly what it was. A chat \<open>ldo\<close>
  that a successful link produced makes every further link for the same person fail in
  that way, whatever the other chat. And an entry whose \<open>references\<close> list is non-empty
  is the same after any run of the transform: \<open>references\<close> goes from empty to
  \<open>[otherChat]\<close> at most once.
\<close>

theorem processNotification_links_at_most_once:
  "(participation ldo = Some ps \<and> length ps \<le> 2 \<and>
      find (\<lambda>p. participant p = Some otherPerson) ps = Some p \<and>
      references p = Some rs \<and> rs \<noteq> []
      \<longrightarrow> processNotification_transform otherChat otherPerson ldo =
            (Some already_references_error, ldo))
   \<and> (processNotification_transform prevChat otherPerson prevLdo = (None, ldo)
      \<longrightarrow> processNotification_transform otherChat otherPerson ldo =
            (Some already_references_error, ldo))
   \<and> (participation ldo = Some ps \<and> k < length ps \<and> references (ps ! k) = Some rs \<and> rs \<noteq> []
      \<longrightarrow> (\<exists>ps'. participation (snd (processNotification_transform anyChat anyPerson ldo))
                   = Some ps' \<and> length ps' = length ps \<and> ps' ! k = ps ! k))"
  using transform_guard [of ldo ps otherPerson p rs otherChat]
    transform_relink [of prevChat otherPerson prevLdo ldo otherChat]
    transform_keeps_linked_entry [of ldo ps k rs anyChat anyPerson]
  by blast

theorem processNotification_links_at_most_once_witness:
  "processNotification_transform alicesChatId alice
       (bobsChatWith (Some [bobsParticipation, alicesParticipation (Some [])])) =
     (None, bobsChatWith (Some [bobsParticipation, alicesParticipation (Some [alicesChatId])]))
   \<and> find (\<lambda>p. participant p = Some alice)
        [bobsParticipation, alicesParticipation (Some [alicesChatId])] =
       Some (alicesParticipation (Some [alicesChatId]))
   \<and> processNotification_transform ''https://alice.example/hospex/messages/a2/index.ttl#this'' alice
       (bobsChatWith (Some [bobsParticipation, alicesParticipation (Some [alicesChatId])])) =
     (Some already_references_error,
      bobsChatWith (Some [bobsParticipation, alicesParticipation (Some [alicesChatId])]))
   \<and> (\<exists>ps'. participation (snd (processNotification_transform alicesChatId bob
          (bobsChatWith (Some [bobsParticipation, alicesParticipation (Some [alicesChatId])]))))
        = Some ps' \<and> length ps' = length [bobsParticipation, alicesParticipation (Some [alicesChatId])]
          \<and> ps' ! 1 = [bobsParticipation, alicesParticipation (Some [alicesChatId])] ! 1)"
proof -
  let ?ps = "[bobsParticipation, alicesParticipation (Some [alicesChatId])]"
  let ?linked = "bobsChatWith (Some ?ps)"
  have h: "participation ?linked = Some ?ps \<and> length ?ps \<le> 2
      \<and> find (\<lambda>p. participant p = Some alice) ?ps = Some (alicesParticipation (Some [alicesChatId]))
      \<and> references (alicesParticipation (Some [alicesChatId])) = Some [alicesChatId]
      \<and> [alicesChatId] \<noteq> []
      \<and> (1::nat) < length ?ps \<and> references (?ps ! 1) = Some [alicesChatId]"
    by (simp add: example_defs)
  have s: "processNotification_transform alicesChatId alice
       (bobsChatWith (Some [bobsParticipation, alicesParticipation (Some [])])) = (None, ?linked)"
    by (simp add: example_defs processNotification_transform_def)
  show ?thesis
    using h s
      processNotification_links_at_most_once
        [where ldo = ?linked and ps = ?ps
           and p = "alicesParticipation (Some [alicesChatId])" and rs = "[alicesChatId]"
           and otherPerson = alice
           and otherChat = "''https://alice.example/hospex/messages/a2/index.ttl#this''"
           and prevChat = alicesChatId
           and prevLdo = "bobsChatWith (Some [bobsParticipation, alicesParticipation (Some [])])"
           and k = 1 and anyChat = alicesChatId and anyPerson = bob]
    by blast
qed

text \<open>
  Claim C3, as the code has it. The transform throws "no participation" exactly when the
  chat has no participation list, and "too much participation" exactly when the list has
  more than two entries. The checks run in that order, so it throws "other person's
  participation not found" exactly when the list exists, has at most two entries and none
  of them has \<open>otherPerson\<close> as participant. When the entry found has no reference yet,
  its \<open>references\<close> becomes exactly \<open>[otherChat]\<close> and nothing else changes. A chat with
  more than two entries is never mutated.
\<close>

theorem processNotification_validation_order:
  "(fst (processNotification_transform otherChat otherPerson ldo) = Some no_participation_error
      \<longleftrightarrow> participation ldo = None)
   \<and> (fst (processNotification_transform otherChat otherPerson ldo) = Some too_much_participation_error
      \<longleftrightarrow> (\<exists>ps. participation ldo = Some ps \<and> length ps > 2))
   \<and> (fst (processNotification_transform otherChat otherPerson ldo) = Some participation_not_found_error
      \<longleftrightarrow> (\<exists>ps. participation ldo = Some ps \<and> length ps \<le> 2 \<and>
             (\<forall>p\<in>set ps. participant p \<noteq> Some otherPerson)))
   \<and> (\<forall>ps i. participation ldo = Some ps \<and> length ps \<le> 2 \<and>
          findIndex (\<lambda>p. participant p = Some otherPerson) ps = Some i \<and>
          (references (ps ! i) = None \<or> references (ps ! i) = Some [])
        \<longrightarrow> processNotification_transform otherChat otherPerson ldo =
              (None, ldo\<lparr>participation := Some (ps[i := (ps ! i)\<lparr>references := Some [otherChat]\<rparr>])\<rparr>))
   \<and> (\<forall>ps. participation ldo = Some ps \<and> length ps > 2
        \<longrightarrow> snd (processNotification_transform otherChat otherPerson ldo) = ldo)"
  by (auto simp: processNotification_transform_def findIndex_None_iff split: option.splits
      dest: findIndex_SomeD)

theorem processNotification_validation_order_witness:
  "fst (processNotification_transform alicesChatId alice (bobsChatWith None)) =
     Some no_participation_error
   \<and> processNotification_transform alicesChatId alice
        (bobsChatWith (Some [bobsParticipation, alicesParticipation None, carolsParticipation])) =
      (Some too_much_participation_error,
       bobsChatWith (Some [bobsParticipation, alicesParticipation None, carolsParticipation]))
   \<and> fst (processNotification_transform alicesChatId alice
        (bobsChatWith (Some [bobsParticipation, carolsParticipation]))) =
      Some participation_not_found_error
   \<and> processNotification_transform alicesChatId alice
        (bobsChatWith (Some [bobsParticipation, alicesParticipation (Some [])])) =
      (None, bobsChatWith (Some [bobsParticipation, alicesParticipation (Some [alicesChatId])]))"
proof -
  let ?crowd = "[bobsParticipation, alicesParticipation None, carolsParticipation]"
  have 1: "fst (processNotification_transform alicesChatId alice (bobsChatWith None)) =
     Some no_participation_error"
    using processNotification_validation_order
      [where ldo = "bobsChatWith None" and otherPerson = alice and otherChat = alicesChatId]
    by (simp add: participation_bobsChatWith)
  have "length ?crowd > 2" by simp
  then have 2: "processNotification_transform alicesChatId alice (bobsChatWith (Some ?crowd)) =
      (Some too_much_participation_error, bobsChatWith (Some ?crowd))"
    using processNotification_validation_order
      [where ldo = "bobsChatWith (Some ?crowd)" and otherPerson = alice
         and otherChat = alicesChatId]
    by (simp add: participation_bobsChatWith prod_eq_iff)
  have "\<forall>p\<in>set [bobsParticipation, carolsParticipation]. participant p \<noteq> Some alice"
    by (simp add: example_defs)
  then have 3: "fst (processNotification_transform alicesChatId alice
        (bobsChatWith (Some [bobsParticipation, carolsParticipation]))) =
      Some participation_not_found_error"
    using processNotification_validation_order
      [where ldo = "bobsChatWith (Some [bobsParticipation, carolsParticipation])"
         and otherPerson = alice and otherChat = alicesChatId]
    by (simp add: participation_bobsChatWith)
  have "findIndex (\<lambda>p. participant p = Some alice)
      [bobsParticipation, alicesParticipation (Some [])] = Some 1"
    by (simp add: example_defs)
  moreover have "references ([bobsParticipation, alicesParticipation (Some [])] ! 1) = Some []"
    by (simp add: alicesParticipation_def)
  ultimately have 4: "processNotification_transform alicesChatId alice
        (bobsChatWith (Some [bobsParticipation, alicesParticipation (Some [])])) =
      (None, bobsChatWith (Some [bobsParticipation, alicesParticipation (Some [alicesChatId])]))"
    using processNotification_validation_order
      [where ldo = "bobsChatWith (Some [bobsParticipation, alicesParticipation (Some [])])"
         and otherPerson = alice and otherChat = alicesChatId]
    by (simp add: participation_bobsChatWith bobsChatWith_update alicesParticipation_update)
  from 1 2 3 4 show ?thesis by blast
qed

text \<open>The claim as it is written fails: in a chat of three entries, none of them
  Alice's, no entry's participant equals \<open>otherPerson\<close>, and the error is "too much
  participation", not "other person's participation not found".\<close>

theorem participation_not_found_iff_counterexample:
  "\<not> (fst (processNotification_transform alicesChatId alice
            (bobsChatWith (Some [bobsParticipation, carolsParticipation, davesParticipation])))
        = Some participation_not_found_error
      \<longleftrightarrow> \<not> list_ex (\<lambda>p. participant p = Some alice)
               [bobsParticipation, carolsParticipation, davesParticipation])
   \<and> fst (processNotification_transform alicesChatId alice
            (bobsChatWith (Some [bobsParticipation, carolsParticipation, davesParticipation])))
        = Some too_much_participation_error"
  by (simp add: processNotification_transform_def example_defs)

text \<open>
  Claim C10. An entry whose \<open>references\<close> property is absent is linked like one whose
  list is empty: the transform succeeds and sets \<open>references\<close> to \<open>[otherChat]\<close>, with
  the same result as on the chat where the property is the empty list. The "already
  references" error is thrown exactly when the entry found has the property and its list
  is non-empty.
\<close>

theorem absent_references_count_as_empty:
  "(participation ldo = Some ps \<and> length ps \<le> 2 \<and>
      findIndex (\<lambda>p. participant p = Some otherPerson) ps = Some i \<and>
      references (ps ! i) = None
      \<longrightarrow> processNotification_transform otherChat otherPerson ldo =
            (None, ldo\<lparr>participation := Some (ps[i := (ps ! i)\<lparr>references := Some [otherChat]\<rparr>])\<rparr>)
        \<and> processNotification_transform otherChat otherPerson
             (ldo\<lparr>participation := Some (ps[i := (ps ! i)\<lparr>references := Some []\<rparr>])\<rparr>) =
            processNotification_transform otherChat otherPerson ldo)
   \<and> (fst (processNotification_transform otherChat otherPerson ldo) = Some already_references_error
      \<longleftrightarrow> (\<exists>ps i rs. participation ldo = Some ps \<and> length ps \<le> 2 \<and>
             findIndex (\<lambda>p. participant p = Some otherPerson) ps = Some i \<and>
             references (ps ! i) = Some rs \<and> rs \<noteq> []))"
proof (intro conjI impI)
  assume a: "participation ldo = Some ps \<and> length ps \<le> 2 \<and>
      findIndex (\<lambda>p. participant p = Some otherPerson) ps = Some i \<and>
      references (ps ! i) = None"
  then show r: "processNotification_transform otherChat otherPerson ldo =
            (None, ldo\<lparr>participation := Some (ps[i := (ps ! i)\<lparr>references := Some [otherChat]\<rparr>])\<rparr>)"
    by (simp add: processNotification_transform_def)
  from a have len: "i < length ps" by (simp add: findIndex_Some_iff)
  let ?ps0 = "ps[i := (ps ! i)\<lparr>references := Some []\<rparr>]"
  have "findIndex (\<lambda>p. participant p = Some otherPerson) ?ps0 = Some i"
    using a len by (simp add: findIndex_list_update)
  moreover have "references (?ps0 ! i) = Some []" using len by simp
  moreover have "?ps0[i := (?ps0 ! i)\<lparr>references := Some [otherChat]\<rparr>] =
      ps[i := (ps ! i)\<lparr>references := Some [otherChat]\<rparr>]"
    using len by simp
  ultimately show "processNotification_transform otherChat otherPerson
             (ldo\<lparr>participation := Some ?ps0\<rparr>) =
            processNotification_transform otherChat otherPerson ldo"
    using a by (simp add: r) (simp add: processNotification_transform_def)
next
  show "fst (processNotification_transform otherChat otherPerson ldo) = Some already_references_error
      \<longleftrightarrow> (\<exists>ps i rs. participation ldo = Some ps \<and> length ps \<le> 2 \<and>
             findIndex (\<lambda>p. participant p = Some otherPerson) ps = Some i \<and>
             references (ps ! i) = Some rs \<and> rs \<noteq> [])"
    by (auto simp: processNotification_transform_def split: option.splits)
qed

theorem absent_references_count_as_empty_witness:
  "references (alicesParticipation None) = None
   \<and> processNotification_transform alicesChatId alice
        (bobsChatWith (Some [bobsParticipation, alicesParticipation None])) =
      (None, bobsChatWith (Some [bobsParticipation, alicesParticipation (Some [alicesChatId])]))
   \<and> processNotification_transform alicesChatId alice
        (bobsChatWith (Some [bobsParticipation, alicesParticipation (Some [])])) =
      processNotification_transform alicesChatId alice
        (bobsChatWith (Some [bobsParticipation, alicesParticipation None]))"
proof -
  let ?ps = "[bobsParticipation, alicesParticipation None]"
  have "findIndex (\<lambda>p. participant p = Some alice) ?ps = Some 1"
    by (simp add: example_defs)
  moreover have r: "references (?ps ! 1) = None" "references (alicesParticipation None) = None"
    by (simp_all add: alicesParticipation_def)
  moreover have "length ?ps \<le> 2" by simp
  ultimately show ?thesis
    using absent_references_count_as_empty
      [where ldo = "bobsChatWith (Some ?ps)" and ps = ?ps and i = 1
         and otherPerson = alice and otherChat = alicesChatId]
    by (simp add: participation_bobsChatWith bobsChatWith_update alicesParticipation_update)
qed

section \<open>NotificationProcessor: the update before the deletion\<close>

lemma updateChatLdo_Inl_iff:
  "fst (updateChatLdo env u s t w) = Inl e \<longleftrightarrow>
     rejects env (UpdateCall u s) = Some e \<or>
     (rejects env (UpdateCall u s) = None \<and> fst (t (readChatLdo w u s)) = Some e)"
  by (auto simp: updateChatLdo_def Let_def split: option.splits prod.splits)

lemma updateChatLdo_failure:
  "fst (updateChatLdo env u s t w) = Inl e \<Longrightarrow>
     snd (updateChatLdo env u s t w) = w\<lparr>calls := calls w @ [UpdateCall u s]\<rparr>"
  by (auto simp: updateChatLdo_def Let_def split: option.splits prod.splits)

lemma updateChatLdo_calls:
  "calls (snd (updateChatLdo env u s t w)) = calls w @ [UpdateCall u s]"
  by (auto simp: updateChatLdo_def Let_def split: option.splits prod.splits)

lemma deleteRdfDocument_calls:
  "calls (snd (deleteRdfDocument env u w)) = calls w @ [DeleteCall u]"
  by (auto simp: deleteRdfDocument_def Let_def split: option.splits)

lemma readChatLdo_bobsPod: "readChatLdo (bobsPod (Some c)) bobsChatId bobsChatId = c"
  by (simp add: readChatLdo_def bobsPod_def)

lemma calls_bobsPod: "calls (bobsPod c) = []"
  by (simp add: bobsPod_def)

lemma documentExists_bobsPod: "documentExists bobsNotification (bobsPod c)"
  by (simp add: bobsPod_def documentExists_def)

lemma rejects_exampleEnv: "rejects (exampleEnv f) = f"
  by (simp add: exampleEnv_def)

text \<open>
  Claim C2. In a run of useProcessNotification the update of the chat fails exactly when
  the collaborator rejects it or the transform throws one of its validation errors. When
  it fails, the run ends with that error, the update is the only call it has made, the
  deletion of the notification is not among its calls, and the notification document
  exists afterwards if and only if it existed before. When the update succeeds, the
  deletion is the call that follows it.
\<close>

theorem notification_deleted_only_after_link:
  "(fst (updateChatLdo env chat chat (processNotification_transform otherChat otherPerson) w) = Inl e
      \<longleftrightarrow> rejects env (UpdateCall chat chat) = Some e \<or>
          (rejects env (UpdateCall chat chat) = None \<and>
           fst (processNotification_transform otherChat otherPerson (readChatLdo w chat chat)) = Some e))
   \<and> (fst (updateChatLdo env chat chat (processNotification_transform otherChat otherPerson) w) = Inl e
      \<longrightarrow> useProcessNotification env notificationId chat otherChat otherPerson w =
            (Inl e, w\<lparr>calls := calls w @ [UpdateCall chat chat]\<rparr>)
        \<and> DeleteCall notificationId \<notin>
            set (drop (length (calls w))
                   (calls (snd (useProcessNotification env notificationId chat otherChat otherPerson w))))
        \<and> documentExists notificationId
            (snd (useProcessNotification env notificationId chat otherChat otherPerson w)) =
          documentExists notificationId w)
   \<and> (fst (updateChatLdo env chat chat (processNotification_transform otherChat otherPerson) w) = Inr ()
      \<longrightarrow> calls (snd (useProcessNotification env notificationId chat otherChat otherPerson w)) =
            calls w @ [UpdateCall chat chat, DeleteCall notificationId])"
proof (intro conjI impI)
  show "fst (updateChatLdo env chat chat (processNotification_transform otherChat otherPerson) w) = Inl e
      \<longleftrightarrow> rejects env (UpdateCall chat chat) = Some e \<or>
          (rejects env (UpdateCall chat chat) = None \<and>
           fst (processNotification_transform otherChat otherPerson (readChatLdo w chat chat)) = Some e)"
    by (rule updateChatLdo_Inl_iff)
next
  assume f: "fst (updateChatLdo env chat chat (processNotification_transform otherChat otherPerson) w) = Inl e"
  then show r: "useProcessNotification env notificationId chat otherChat otherPerson w =
            (Inl e, w\<lparr>calls := calls w @ [UpdateCall chat chat]\<rparr>)"
    using updateChatLdo_failure [OF f]
    by (cases "updateChatLdo env chat chat (processNotification_transform otherChat otherPerson) w")
      (simp add: useProcessNotification_def)
  show "DeleteCall notificationId \<notin>
            set (drop (length (calls w))
                   (calls (snd (useProcessNotification env notificationId chat otherChat otherPerson w))))"
    by (simp add: r)
  show "documentExists notificationId
            (snd (useProcessNotification env notificationId chat otherChat otherPerson w)) =
          documentExists notificationId w"
    by (simp add: r documentExists_def)
next
  assume "fst (updateChatLdo env chat chat (processNotification_transform otherChat otherPerson) w) = Inr ()"
  then show "calls (snd (useProcessNotification env notificationId chat otherChat otherPerson w)) =
            calls w @ [UpdateCall chat chat, DeleteCall notificationId]"
    using updateChatLdo_calls [of env chat chat "processNotification_transform otherChat otherPerson" w]
    by (cases "updateChatLdo env chat chat (processNotification_transform otherChat otherPerson) w")
      (simp add: useProcessNotification_def deleteRdfDocument_calls)
qed


theorem notification_deleted_only_after_link_witness:
  "useProcessNotification (exampleEnv online) bobsNotification bobsChatId
       ''https://alice.example/hospex/messages/a2/index.ttl#this'' alice
       (bobsPod (Some (bobsChatWith (Some [bobsParticipation, alicesParticipation (Some [alicesChatId])])))) =
     (Inl already_references_error,
      (bobsPod (Some (bobsChatWith (Some [bobsParticipation, alicesParticipation (Some [alicesChatId])]))))
        \<lparr>calls := [UpdateCall bobsChatId bobsChatId]\<rparr>)
   \<and> documentExists bobsNotification
        (snd (useProcessNotification (exampleEnv online) bobsNotification bobsChatId
           ''https://alice.example/hospex/messages/a2/index.ttl#this'' alice
           (bobsPod (Some (bobsChatWith (Some [bobsParticipation, alicesParticipation (Some [alicesChatId])]))))))
   \<and> useProcessNotification (exampleEnv offline) bobsNotification bobsChatId alicesChatId alice
       (bobsPod (Some (bobsChatWith (Some [bobsParticipation, alicesParticipation None])))) =
     (Inl (Rejected ''Failed to fetch''),
      (bobsPod (Some (bobsChatWith (Some [bobsParticipation, alicesParticipation None]))))
        \<lparr>calls := [UpdateCall bobsChatId bobsChatId]\<rparr>)
   \<and> calls (snd (useProcessNotification (exampleEnv online) bobsNotification bobsChatId alicesChatId
        alice (bobsPod (Some (bobsChatWith (Some [bobsParticipation, alicesParticipation None])))))) =
     [UpdateCall bobsChatId bobsChatId, DeleteCall bobsNotification]"
proof -
  let ?linked = "bobsChatWith (Some [bobsParticipation, alicesParticipation (Some [alicesChatId])])"
  let ?fresh = "bobsChatWith (Some [bobsParticipation, alicesParticipation None])"
  let ?a2 = "''https://alice.example/hospex/messages/a2/index.ttl#this''"
  have t1: "fst (processNotification_transform ?a2 alice ?linked) = Some already_references_error"
    by (simp add: processNotification_transform_def example_defs)
  have t2: "fst (processNotification_transform alicesChatId alice ?fresh) = None"
    by (simp add: processNotification_transform_def example_defs)
  have u2: "fst (updateChatLdo (exampleEnv online) bobsChatId bobsChatId
      (processNotification_transform alicesChatId alice) (bobsPod (Some ?fresh))) = Inr ()"
    using t2
    by (cases "processNotification_transform alicesChatId alice ?fresh")
      (simp add: updateChatLdo_def rejects_exampleEnv online_def readChatLdo_bobsPod)
  note T1 = notification_deleted_only_after_link
    [where env = "exampleEnv online" and chat = bobsChatId and otherChat = ?a2
       and otherPerson = alice and w = "bobsPod (Some ?linked)"
       and e = already_references_error and notificationId = bobsNotification]
  note T2 = notification_deleted_only_after_link
    [where env = "exampleEnv offline" and chat = bobsChatId and otherChat = alicesChatId
       and otherPerson = alice and w = "bobsPod (Some ?fresh)"
       and e = "Rejected ''Failed to fetch''" and notificationId = bobsNotification]
  note T3 = notification_deleted_only_after_link
    [where env = "exampleEnv online" and chat = bobsChatId and otherChat = alicesChatId
       and otherPerson = alice and w = "bobsPod (Some ?fresh)"
       and notificationId = bobsNotification]
  have f1: "fst (updateChatLdo (exampleEnv online) bobsChatId bobsChatId
      (processNotification_transform ?a2 alice) (bobsPod (Some ?linked))) = Inl already_references_error"
    using T1 t1 by (simp add: rejects_exampleEnv online_def readChatLdo_bobsPod)
  from T1 f1 have A: "useProcessNotification (exampleEnv online) bobsNotification bobsChatId ?a2 alice
       (bobsPod (Some ?linked)) =
     (Inl already_references_error,
      (bobsPod (Some ?linked))\<lparr>calls := calls (bobsPod (Some ?linked)) @ [UpdateCall bobsChatId bobsChatId]\<rparr>)"
    by blast
  from T1 f1 have B: "documentExists bobsNotification
        (snd (useProcessNotification (exampleEnv online) bobsNotification bobsChatId ?a2 alice
           (bobsPod (Some ?linked)))) = documentExists bobsNotification (bobsPod (Some ?linked))"
    by blast
  have 1: "useProcessNotification (exampleEnv online) bobsNotification bobsChatId ?a2 alice
       (bobsPod (Some ?linked)) =
     (Inl already_references_error, (bobsPod (Some ?linked))\<lparr>calls := [UpdateCall bobsChatId bobsChatId]\<rparr>)"
    using A by (simp only: calls_bobsPod append_Nil)
  have d1: "documentExists bobsNotification
        (snd (useProcessNotification (exampleEnv online) bobsNotification bobsChatId ?a2 alice
           (bobsPod (Some ?linked))))"
    by (simp only: B documentExists_bobsPod)
  have f2: "fst (updateChatLdo (exampleEnv offline) bobsChatId bobsChatId
      (processNotification_transform alicesChatId alice) (bobsPod (Some ?fresh))) =
      Inl (Rejected ''Failed to fetch'')"
    using T2 by (simp add: rejects_exampleEnv offline_def)
  with T2 have "useProcessNotification (exampleEnv offline) bobsNotification bobsChatId alicesChatId alice
       (bobsPod (Some ?fresh)) =
     (Inl (Rejected ''Failed to fetch''),
      (bobsPod (Some ?fresh))\<lparr>calls := calls (bobsPod (Some ?fresh)) @ [UpdateCall bobsChatId bobsChatId]\<rparr>)"
    by blast
  then have 2: "useProcessNotification (exampleEnv offline) bobsNotification bobsChatId alicesChatId alice
       (bobsPod (Some ?fresh)) =
     (Inl (Rejected ''Failed to fetch''),
      (bobsPod (Some ?fresh))\<lparr>calls := [UpdateCall bobsChatId bobsChatId]\<rparr>)"
    by (simp only: calls_bobsPod append_Nil)
  from T3 u2 have "calls (snd (useProcessNotification (exampleEnv online) bobsNotification bobsChatId
        alicesChatId alice (bobsPod (Some ?fresh)))) =
     calls (bobsPod (Some ?fresh)) @ [UpdateCall bobsChatId bobsChatId, DeleteCall bobsNotification]"
    by blast
  then have 3: "calls (snd (useProcessNotification (exampleEnv online) bobsNotification bobsChatId
        alicesChatId alice (bobsPod (Some ?fresh)))) =
     [UpdateCall bobsChatId bobsChatId, DeleteCall bobsNotification]"
    by (simp only: calls_bobsPod append_Nil)
  from 1 d1 2 3 show ?thesis by blast
qed

section \<open>NotificationEmitter: the activity that is posted\<close>

text \<open>
  Claim C9. A call of useCreateMessageNotification makes exactly one call to its
  collaborator: a create with method POST on the inbox, whose data have type \<open>Add\<close>, the
  sender as actor, the message as object, the chat as target and the given \<open>updated\<close>
  value. When the collaborator accepts it, exactly that document is added at the inbox;
  when it rejects it, the error is surfaced and nothing is added.
\<close>

theorem createMessageNotification_posts_one_activity:
  "calls (snd (useCreateMessageNotification env inbox senderId message_iri chat_iri updated_at w)) =
     calls w @
     [CreateCall inbox (Some ''POST'')
        (ActivityData
           \<lparr>act_id = '''', act_type = [''Add''], actor = senderId,
            act_context = ''https://www.pod-chat.com/LongChatMessage'',
            act_object = message_iri, act_target = chat_iri, updated = updated_at\<rparr>)]
   \<and> (case rejects env
             (CreateCall inbox (Some ''POST'')
                (ActivityData
                   \<lparr>act_id = '''', act_type = [''Add''], actor = senderId,
                    act_context = ''https://www.pod-chat.com/LongChatMessage'',
                    act_object = message_iri, act_target = chat_iri, updated = updated_at\<rparr>)) of
         None \<Rightarrow>
           fst (useCreateMessageNotification env inbox senderId message_iri chat_iri updated_at w) = Inr ()
           \<and> resources (snd (useCreateMessageNotification env inbox senderId message_iri chat_iri updated_at w)) =
               resources w @
               [(inbox, ActivityData
                   \<lparr>act_id = '''', act_type = [''Add''], actor = senderId,
                    act_context = ''https://www.pod-chat.com/LongChatMessage'',
                    act_object = message_iri, act_target = chat_iri, updated = updated_at\<rparr>)]
       | Some e \<Rightarrow>
           fst (useCreateMessageNotification env inbox senderId message_iri chat_iri updated_at w) = Inl e
           \<and> resources (snd (useCreateMessageNotification env inbox senderId message_iri chat_iri updated_at w)) =
               resources w)"
  by (simp add: useCreateMessageNotification_def createRdfDocument_def Let_def split: option.splits)

theorem createMessageNotification_posts_one_activity_witness:
  "useCreateMessageNotification (exampleEnv online) ''https://bob.example/inbox/'' alice
       ''https://alice.example/hospex/messages/a1/2024/05/17/chat.ttl#msg-m1'' alicesChatId
       ''2024-05-17T09:30:00.000Z'' (bobsPod None) =
     (Inr (),
      (bobsPod None)
        \<lparr>resources :=
           [(bobsNotification, ActivityData exampleActivity),
            (''https://bob.example/inbox/'',
             ActivityData
               \<lparr>act_id = '''', act_type = [''Add''], actor = alice,
                act_context = ''https://www.pod-chat.com/LongChatMessage'',
                act_object = ''https://alice.example/hospex/messages/a1/2024/05/17/chat.ttl#msg-m1'',
                act_target = alicesChatId, updated = ''2024-05-17T09:30:00.000Z''\<rparr>)],
         calls :=
           [CreateCall ''https://bob.example/inbox/'' (Some ''POST'')
              (ActivityData
                 \<lparr>act_id = '''', act_type = [''Add''], actor = alice,
                  act_context = ''https://www.pod-chat.com/LongChatMessage'',
                  act_object = ''https://alice.example/hospex/messages/a1/2024/05/17/chat.ttl#msg-m1'',
                  act_target = alicesChatId, updated = ''2024-05-17T09:30:00.000Z''\<rparr>)]\<rparr>)"
proof -
  let ?r = "useCreateMessageNotification (exampleEnv online) ''https://bob.example/inbox/'' alice
       ''https://alice.example/hospex/messages/a1/2024/05/17/chat.ttl#msg-m1'' alicesChatId
       ''2024-05-17T09:30:00.000Z'' (bobsPod None)"
  have others: "chatLdo (snd ?r) = chatLdo (bobsPod None)" "indexLdo (snd ?r) = indexLdo (bobsPod None)"
    by (simp_all add: useCreateMessageNotification_def createRdfDocument_def Let_def
        split: option.splits)
  have "fst ?r = Inr () \<and> calls (snd ?r) = calls (bobsPod None) @
          [CreateCall ''https://bob.example/inbox/'' (Some ''POST'')
              (ActivityData
                 \<lparr>act_id = '''', act_type = [''Add''], actor = alice,
                  act_context = ''https://www.pod-chat.com/LongChatMessage'',
                  act_object = ''https://alice.example/hospex/messages/a1/2024/05/17/chat.ttl#msg-m1'',
                  act_target = alicesChatId, updated = ''2024-05-17T09:30:00.000Z''\<rparr>)]
      \<and> resources (snd ?r) = resources (bobsPod None) @
          [(''https://bob.example/inbox/'',
             ActivityData
               \<lparr>act_id = '''', act_type = [''Add''], actor = alice,
                act_context = ''https://www.pod-chat.com/LongChatMessage'',
                act_object = ''https://alice.example/hospex/messages/a1/2024/05/17/chat.ttl#msg-m1'',
                act_target = alicesChatId, updated = ''2024-05-17T09:30:00.000Z''\<rparr>)]"
    using createMessageNotification_posts_one_activity
      [where env = "exampleEnv online" and inbox = "''https://bob.example/inbox/''"
         and senderId = alice
         and message_iri = "''https://alice.example/hospex/messages/a1/2024/05/17/chat.ttl#msg-m1''"
         and chat_iri = alicesChatId and updated_at = "''2024-05-17T09:30:00.000Z''"
         and w = "bobsPod None"]
    by (simp add: rejects_exampleEnv online_def)
  with others show ?thesis
    by (cases ?r) (simp add: bobsPod_def)
qed

section \<open>ChatEstablisher: the runs of useCreateChat\<close>

lemma createChat_transform_never_throws: "fst (createChat_transform env c fresh ldo) = None"
  by (simp add: createChat_transform_def Let_def split: option.splits)

lemma updateIndexLdo_createChat:
  "updateIndexLdo env u s (createChat_transform env c fresh) w =
     (case rejects env (UpdateCall u s) of
        Some e \<Rightarrow> (Inl e, w\<lparr>calls := calls w @ [UpdateCall u s]\<rparr>)
      | None \<Rightarrow>
          (Inr (),
           w\<lparr>calls := calls w @ [UpdateCall u s],
             indexLdo := (indexLdo w)((u, s) :=
               Some (snd (createChat_transform env c fresh (readIndexLdo w u s))))\<rparr>))"
  using createChat_transform_never_throws [of env c fresh "readIndexLdo w u s"]
  by (cases "createChat_transform env c fresh (readIndexLdo w u s)")
    (simp add: updateIndexLdo_def Let_def split: option.splits)

lemma readIndexLdo_calls_update [simp]:
  "readIndexLdo (calls_update f w) u s = readIndexLdo w u s"
  by (simp add: readIndexLdo_def)

lemma readIndexLdo_resources_update [simp]:
  "readIndexLdo (resources_update f w) u s = readIndexLdo w u s"
  by (simp add: readIndexLdo_def)

lemmas createChat_steps = useCreateChat_def createRdfDocument_def fetchHead_def
  updateIndexLdo_createChat Let_def newCalls_def

text \<open>
  Claim C4. When the response to the HEAD request on the new chat container has no \<open>acl\<close>
  link relation, a run of useCreateChat ends with an error, makes no create call for
  authorizations and no update call, and leaves the private type index as it was. When
  the chat document was accepted and the HEAD request answered, the error is the one the
  hook throws itself (\<^verbatim>\<open>We could not find WAC link for a given resource\<close>), and the
  creation of the chat and the HEAD request are the only calls of the run.
\<close>

theorem no_acl_link_stops_createChat:
  "aclUrl env (linkHeader env (hospexContainer @ ''messages/'' @ uuid_v4 env 0 @ ''/'')) = None \<longrightarrow>
     (\<exists>e. fst (useCreateChat env me otherPerson otherChat hospexContainer privateTypeIndex w) = Inl e)
     \<and> createdAuthorizations
          (newCalls w (snd (useCreateChat env me otherPerson otherChat hospexContainer privateTypeIndex w))) = []
     \<and> updatedDocuments
          (newCalls w (snd (useCreateChat env me otherPerson otherChat hospexContainer privateTypeIndex w))) = []
     \<and> indexLdo (snd (useCreateChat env me otherPerson otherChat hospexContainer privateTypeIndex w)) =
         indexLdo w
     \<and> (rejects env
           (CreateCall (hospexContainer @ ''messages/'' @ uuid_v4 env 0 @ ''/index.ttl'') None
              (ChatData (newChat (hospexContainer @ ''messages/'' @ uuid_v4 env 0 @ ''/index.ttl'')
                 (hospexContainer @ ''messages/'' @ uuid_v4 env 0 @ ''/index.ttl#this'')
                 (toISOString (clock env 0)) (uuid_v4 env 1) (uuid_v4 env 2)
                 me otherPerson otherChat))) = None \<and>
         rejects env (FetchCall (hospexContainer @ ''messages/'' @ uuid_v4 env 0 @ ''/'') ''HEAD'') = None
         \<longrightarrow> fst (useCreateChat env me otherPerson otherChat hospexContainer privateTypeIndex w) =
               Inl no_WAC_link_error
             \<and> newCalls w (snd (useCreateChat env me otherPerson otherChat hospexContainer privateTypeIndex w)) =
               [CreateCall (hospexContainer @ ''messages/'' @ uuid_v4 env 0 @ ''/index.ttl'') None
                  (ChatData (newChat (hospexContainer @ ''messages/'' @ uuid_v4 env 0 @ ''/index.ttl'')
                     (hospexContainer @ ''messages/'' @ uuid_v4 env 0 @ ''/index.ttl#this'')
                     (toISOString (clock env 0)) (uuid_v4 env 1) (uuid_v4 env 2)
                     me otherPerson otherChat)),
                FetchCall (hospexContainer @ ''messages/'' @ uuid_v4 env 0 @ ''/'') ''HEAD''])"
  by (simp add: createChat_steps split: option.splits)

lemma createChat_createdChats:
  "createdChats
       (newCalls w (snd (useCreateChat env me otherPerson otherChat hospexContainer privateTypeIndex w))) =
     [(hospexContainer @ ''messages/'' @ uuid_v4 env 0 @ ''/index.ttl'',
       newChat (hospexContainer @ ''messages/'' @ uuid_v4 env 0 @ ''/index.ttl'')
         (hospexContainer @ ''messages/'' @ uuid_v4 env 0 @ ''/index.ttl#this'')
         (toISOString (clock env 0)) (uuid_v4 env 1) (uuid_v4 env 2) me otherPerson otherChat)]"
  by (simp add: createChat_steps split: option.splits)

text \<open>
  Claim C5, as the code has it. Every run of useCreateChat makes exactly one create call
  for a chat document, at \<open>index.ttl\<close> of the new container: its type is LongChat, its
  author is \<open>me\<close>, its creation date is the reading of the clock, its title is
  \<^verbatim>\<open>Hospex chat channel\<close>, and it has exactly two participations. The one of \<open>me\<close> has
  no \<open>references\<close> property; the one of \<open>otherPerson\<close> has the list \<open>[otherChat]\<close>
  when \<open>otherChat\<close> is supplied and is not the empty string, and the empty list when it
  is absent or the empty string.
\<close>

theorem createChat_saves_chat_document:
  "createdChats
       (newCalls w (snd (useCreateChat env me otherPerson otherChat hospexContainer privateTypeIndex w))) =
     [(hospexContainer @ ''messages/'' @ uuid_v4 env 0 @ ''/index.ttl'',
       \<lparr>chat_id = hospexContainer @ ''messages/'' @ uuid_v4 env 0 @ ''/index.ttl#this'',
        chat_type = Some ''LongChat'',
        author = Some me,
        created2 = Some (toISOString (clock env 0)),
        title = Some ''Hospex chat channel'',
        participation = Some
          [\<lparr>part_id = hospexContainer @ ''messages/'' @ uuid_v4 env 0 @ ''/index.ttl#'' @ uuid_v4 env 1,
            dtstart = toISOString (clock env 0),
            participant = Some me,
            references = None\<rparr>,
           \<lparr>part_id = hospexContainer @ ''messages/'' @ uuid_v4 env 0 @ ''/index.ttl#'' @ uuid_v4 env 2,
            dtstart = toISOString (clock env 0),
            participant = Some otherPerson,
            references = Some (case otherChat of
                                None \<Rightarrow> []
                              | Some oc \<Rightarrow> if oc = '''' then [] else [oc])\<rparr>],
        message = None\<rparr>)]"
  by (simp add: createChat_createdChats newChat_def)

lemma createChat_success:
  assumes "fst (useCreateChat env me otherPerson otherChat hospexContainer privateTypeIndex w) = Inr res"
  shows "case aclUrl env (linkHeader env (hospexContainer @ ''messages/'' @ uuid_v4 env 0 @ ''/'')) of
      None \<Rightarrow> False
    | Some aclUri \<Rightarrow>
        aclUri \<noteq> ''''
        \<and> res = \<lparr>chatContainer = hospexContainer @ ''messages/'' @ uuid_v4 env 0 @ ''/'',
                 chatFile = hospexContainer @ ''messages/'' @ uuid_v4 env 0 @ ''/index.ttl'',
                 chatId = hospexContainer @ ''messages/'' @ uuid_v4 env 0 @ ''/index.ttl#this''\<rparr>
        \<and> newCalls w (snd (useCreateChat env me otherPerson otherChat hospexContainer privateTypeIndex w)) =
           [CreateCall (hospexContainer @ ''messages/'' @ uuid_v4 env 0 @ ''/index.ttl'') None
              (ChatData (newChat (hospexContainer @ ''messages/'' @ uuid_v4 env 0 @ ''/index.ttl'')
                 (hospexContainer @ ''messages/'' @ uuid_v4 env 0 @ ''/index.ttl#this'')
                 (toISOString (clock env 0)) (uuid_v4 env 1) (uuid_v4 env 2) me otherPerson otherChat)),
            FetchCall (hospexContainer @ ''messages/'' @ uuid_v4 env 0 @ ''/'') ''HEAD'',
            CreateCall aclUri None
              (AuthorizationData (newAuthorizations env aclUri
                 (hospexContainer @ ''messages/'' @ uuid_v4 env 0 @ ''/'') me otherPerson)),
            UpdateCall privateTypeIndex privateTypeIndex]
        \<and> resources (snd (useCreateChat env me otherPerson otherChat hospexContainer privateTypeIndex w)) =
           resources w @
           [(hospexContainer @ ''messages/'' @ uuid_v4 env 0 @ ''/index.ttl'',
             ChatData (newChat (hospexContainer @ ''messages/'' @ uuid_v4 env 0 @ ''/index.ttl'')
                 (hospexContainer @ ''messages/'' @ uuid_v4 env 0 @ ''/index.ttl#this'')
                 (toISOString (clock env 0)) (uuid_v4 env 1) (uuid_v4 env 2) me otherPerson otherChat)),
            (aclUri, AuthorizationData (newAuthorizations env aclUri
                 (hospexContainer @ ''messages/'' @ uuid_v4 env 0 @ ''/'') me otherPerson))]
        \<and> indexLdo (snd (useCreateChat env me otherPerson otherChat hospexContainer privateTypeIndex w)) =
           (indexLdo w)((privateTypeIndex, privateTypeIndex) :=
              Some (snd (createChat_transform env
                 (hospexContainer @ ''messages/'' @ uuid_v4 env 0 @ ''/index.ttl#this'') (uuid_v4 env 3)
                 (readIndexLdo w privateTypeIndex privateTypeIndex))))"
  using assms
  by (simp add: createChat_steps split: option.splits if_splits) auto

text \<open>
  Claim C8. A successful run of useCreateChat has found an ACL resource and has made
  exactly one create call for authorizations, on that resource, with exactly two entries:
  the first has agent \<open>[me]\<close> and the modes Read, Write and Control, the second has agent
  \<open>[otherPerson]\<close> and the mode Read only; \<open>accessTo\<close> and \<open>default\<close> of both are the
  new chat container. The document is among those of the pod afterwards.
\<close>

theorem createChat_grants_two_authorizations:
  "fst (useCreateChat env me otherPerson otherChat hospexContainer privateTypeIndex w) = Inr res \<longrightarrow>
     (\<exists>aclUri.
        aclUrl env (linkHeader env (hospexContainer @ ''messages/'' @ uuid_v4 env 0 @ ''/'')) = Some aclUri
        \<and> chatContainer res = hospexContainer @ ''messages/'' @ uuid_v4 env 0 @ ''/''
        \<and> createdAuthorizations
            (newCalls w (snd (useCreateChat env me otherPerson otherChat hospexContainer privateTypeIndex w))) =
           [(aclUri,
             [\<lparr>auth_id = aclUri @ ''#ReadWriteControl'', auth_type = ''Authorization'',
               agent = [me], accessTo = [chatContainer res], auth_default = chatContainer res,
               mode = [acl_Read env, acl_Write env, acl_Control env]\<rparr>,
              \<lparr>auth_id = aclUri @ ''#Read'', auth_type = ''Authorization'',
               agent = [otherPerson], accessTo = [chatContainer res], auth_default = chatContainer res,
               mode = [acl_Read env]\<rparr>])]
        \<and> (aclUri, AuthorizationData
             [\<lparr>auth_id = aclUri @ ''#ReadWriteControl'', auth_type = ''Authorization'',
               agent = [me], accessTo = [chatContainer res], auth_default = chatContainer res,
               mode = [acl_Read env, acl_Write env, acl_Control env]\<rparr>,
              \<lparr>auth_id = aclUri @ ''#Read'', auth_type = ''Authorization'',
               agent = [otherPerson], accessTo = [chatContainer res], auth_default = chatContainer res,
               mode = [acl_Read env]\<rparr>])
           \<in> set (resources (snd (useCreateChat env me otherPerson otherChat hospexContainer privateTypeIndex w))))"
proof
  assume ok: "fst (useCreateChat env me otherPerson otherChat hospexContainer privateTypeIndex w) = Inr res"
  show "\<exists>aclUri.
        aclUrl env (linkHeader env (hospexContainer @ ''messages/'' @ uuid_v4 env 0 @ ''/'')) = Some aclUri
        \<and> chatContainer res = hospexContainer @ ''messages/'' @ uuid_v4 env 0 @ ''/''
        \<and> createdAuthorizations
            (newCalls w (snd (useCreateChat env me otherPerson otherChat hospexContainer privateTypeIndex w))) =
           [(aclUri,
             [\<lparr>auth_id = aclUri @ ''#ReadWriteControl'', auth_type = ''Authorization'',
               agent = [me], accessTo = [chatContainer res], auth_default = chatContainer res,
               mode = [acl_Read env, acl_Write env, acl_Control env]\<rparr>,
              \<lparr>auth_id = aclUri @ ''#Read'', auth_type = ''Authorization'',
               agent = [otherPerson], accessTo = [chatContainer res], auth_default = chatContainer res,
               mode = [acl_Read env]\<rparr>])]
        \<and> (aclUri, AuthorizationData
             [\<lparr>auth_id = aclUri @ ''#ReadWriteControl'', auth_type = ''Authorization'',
               agent = [me], accessTo = [chatContainer res], auth_default = chatContainer res,
               mode = [acl_Read env, acl_Write env, acl_Control env]\<rparr>,
              \<lparr>auth_id = aclUri @ ''#Read'', auth_type = ''Authorization'',
               agent = [otherPerson], accessTo = [chatContainer res], auth_default = chatContainer res,
               mode = [acl_Read env]\<rparr>])
           \<in> set (resources (snd (useCreateChat env me otherPerson otherChat hospexContainer privateTypeIndex w)))"
    using createChat_success [OF ok]
    by (simp add: newAuthorizations_def split: option.splits)
qed

lemma exampleEnv_simps:
  "uuid_v4 (exampleEnv f) n =
     (if n = 0 then ''b1'' else if n = 1 then ''p1'' else if n = 2 then ''p2'' else ''r1'')"
  "clock (exampleEnv f) n = exampleInstant"
  "rejects (exampleEnv f) = f"
  "acl_Read (exampleEnv f) = ''http://www.w3.org/ns/auth/acl#Read''"
  "acl_Write (exampleEnv f) = ''http://www.w3.org/ns/auth/acl#Write''"
  "acl_Control (exampleEnv f) = ''http://www.w3.org/ns/auth/acl#Control''"
  "meeting_LongChat (exampleEnv f) = ''http://www.w3.org/ns/pim/meeting#LongChat''"
  "publicTypeIndex (exampleEnv f) = ''http://www.w3.org/ns/solid/terms#publicTypeIndex''"
  by (simp_all add: exampleEnv_def)

lemma aclUrl_exampleEnv:
  "aclUrl (exampleEnv f) (linkHeader (exampleEnv f) ''https://bob.example/hospex/messages/b1/'') =
     Some ''https://bob.example/hospex/messages/b1/.acl''"
  by (simp add: aclUrl_def exampleEnv_def)

theorem createChat_saves_chat_document_witness:
  "createdChats (newCalls (bobsPod None)
       (snd (useCreateChat (exampleEnv online) bob alice None bobsHospex bobsTypeIndex (bobsPod None)))) =
     [(''https://bob.example/hospex/messages/b1/index.ttl'',
       bobsChatWith (Some [bobsParticipation, alicesParticipation (Some [])]))]
   \<and> createdChats (newCalls (bobsPod None)
       (snd (useCreateChat (exampleEnv online) bob alice (Some alicesChatId) bobsHospex bobsTypeIndex
          (bobsPod None)))) =
     [(''https://bob.example/hospex/messages/b1/index.ttl'',
       bobsChatWith (Some [bobsParticipation, alicesParticipation (Some [alicesChatId])]))]"
  using createChat_saves_chat_document
      [where env = "exampleEnv online" and me = bob and otherPerson = alice and otherChat = None
         and hospexContainer = bobsHospex and privateTypeIndex = bobsTypeIndex and w = "bobsPod None"]
    createChat_saves_chat_document
      [where env = "exampleEnv online" and me = bob and otherPerson = alice
         and otherChat = "Some alicesChatId"
         and hospexContainer = bobsHospex and privateTypeIndex = bobsTypeIndex and w = "bobsPod None"]
  by (simp add: exampleEnv_simps exampleInstant_def example_defs bobsHospex_def)

text \<open>The claim as it is written fails for an \<open>otherChat\<close> that is supplied as the empty
  string: the conditional tests truthiness, and the references list is empty, not
  \<open>[otherChat]\<close>.\<close>

theorem empty_otherChat_counterexample:
  "map (\<lambda>(u, d). map_option (map (\<lambda>p. (participant p, references p))) (participation d))
     (createdChats (newCalls (bobsPod None)
        (snd (useCreateChat (exampleEnv online) bob alice (Some '''') bobsHospex bobsTypeIndex
           (bobsPod None))))) =
     [Some [(Some bob, None), (Some alice, Some [])]]
   \<and> map (\<lambda>(u, d). map_option (map (\<lambda>p. (participant p, references p))) (participation d))
     (createdChats (newCalls (bobsPod None)
        (snd (useCreateChat (exampleEnv online) bob alice (Some '''') bobsHospex bobsTypeIndex
           (bobsPod None))))) \<noteq>
     [Some [(Some bob, None), (Some alice, Some [''''])]]"
  by (simp add: createChat_createdChats newChat_def)

theorem no_acl_link_stops_createChat_witness:
  "aclUrl noLinkHeader (linkHeader noLinkHeader ''https://bob.example/hospex/messages/b1/'') = None
   \<and> fst (useCreateChat noLinkHeader bob alice None bobsHospex bobsTypeIndex (bobsPod None)) =
       Inl no_WAC_link_error
   \<and> createdAuthorizations (newCalls (bobsPod None)
        (snd (useCreateChat noLinkHeader bob alice None bobsHospex bobsTypeIndex (bobsPod None)))) = []
   \<and> updatedDocuments (newCalls (bobsPod None)
        (snd (useCreateChat noLinkHeader bob alice None bobsHospex bobsTypeIndex (bobsPod None)))) = []
   \<and> newCalls (bobsPod None)
        (snd (useCreateChat noLinkHeader bob alice None bobsHospex bobsTypeIndex (bobsPod None))) =
       [CreateCall ''https://bob.example/hospex/messages/b1/index.ttl'' None
          (ChatData (bobsChatWith (Some [bobsParticipation, alicesParticipation (Some [])]))),
        FetchCall ''https://bob.example/hospex/messages/b1/'' ''HEAD'']"
proof -
  have u: "uuid_v4 noLinkHeader = uuid_v4 (exampleEnv online)" "clock noLinkHeader 0 = exampleInstant"
    "rejects noLinkHeader = online"
    by (simp_all add: noLinkHeader_def exampleEnv_simps)
  have a: "aclUrl noLinkHeader (linkHeader noLinkHeader ''https://bob.example/hospex/messages/b1/'') = None"
    by (simp add: aclUrl_def noLinkHeader_def exampleEnv_def)
  have d: "newChat ''https://bob.example/hospex/messages/b1/index.ttl''
      ''https://bob.example/hospex/messages/b1/index.ttl#this'' (toISOString exampleInstant)
      ''p1'' ''p2'' bob alice None = bobsChatWith (Some [bobsParticipation, alicesParticipation (Some [])])"
    by (simp add: newChat_def exampleInstant_def example_defs)
  show ?thesis
    using a no_acl_link_stops_createChat
      [where env = noLinkHeader and me = bob and otherPerson = alice and otherChat = None
         and hospexContainer = bobsHospex and privateTypeIndex = bobsTypeIndex and w = "bobsPod None"]
    by (simp add: u exampleEnv_simps d bobsHospex_def online_def)
qed

lemma example_createChat_succeeds:
  "fst (useCreateChat (exampleEnv online) bob alice None bobsHospex bobsTypeIndex (bobsPod None)) =
     Inr \<lparr>chatContainer = ''https://bob.example/hospex/messages/b1/'',
          chatFile = ''https://bob.example/hospex/messages/b1/index.ttl'',
          chatId = ''https://bob.example/hospex/messages/b1/index.ttl#this''\<rparr>"
  using aclUrl_exampleEnv [of online]
  by (simp add: createChat_steps exampleEnv_simps online_def bobsHospex_def)

theorem createChat_grants_two_authorizations_witness:
  "fst (useCreateChat (exampleEnv online) bob alice None bobsHospex bobsTypeIndex (bobsPod None)) =
     Inr \<lparr>chatContainer = ''https://bob.example/hospex/messages/b1/'',
          chatFile = ''https://bob.example/hospex/messages/b1/index.ttl'',
          chatId = ''https://bob.example/hospex/messages/b1/index.ttl#this''\<rparr>
   \<and> createdAuthorizations (newCalls (bobsPod None)
        (snd (useCreateChat (exampleEnv online) bob alice None bobsHospex bobsTypeIndex (bobsPod None)))) =
       [(''https://bob.example/hospex/messages/b1/.acl'',
         [\<lparr>auth_id = ''https://bob.example/hospex/messages/b1/.acl#ReadWriteControl'',
           auth_type = ''Authorization'', agent = [bob],
           accessTo = [''https://bob.example/hospex/messages/b1/''],
           auth_default = ''https://bob.example/hospex/messages/b1/'',
           mode = [''http://www.w3.org/ns/auth/acl#Read'', ''http://www.w3.org/ns/auth/acl#Write'',
                   ''http://www.w3.org/ns/auth/acl#Control'']\<rparr>,
          \<lparr>auth_id = ''https://bob.example/hospex/messages/b1/.acl#Read'',
           auth_type = ''Authorization'', agent = [alice],
           accessTo = [''https://bob.example/hospex/messages/b1/''],
           auth_default = ''https://bob.example/hospex/messages/b1/'',
           mode = [''http://www.w3.org/ns/auth/acl#Read'']\<rparr>])]"
  using example_createChat_succeeds aclUrl_exampleEnv [of online]
    createChat_grants_two_authorizations
      [where env = "exampleEnv online" and me = bob and otherPerson = alice and otherChat = None
         and hospexContainer = bobsHospex and privateTypeIndex = bobsTypeIndex and w = "bobsPod None"
         and res = "\<lparr>chatContainer = ''https://bob.example/hospex/messages/b1/'',
          chatFile = ''https://bob.example/hospex/messages/b1/index.ttl'',
          chatId = ''https://bob.example/hospex/messages/b1/index.ttl#this''\<rparr>"]
  by (simp add: exampleEnv_simps bobsHospex_def)

lemma createChat_transform_existing:
  assumes "idx_references ldo = Some rs" "\<exists>r\<in>set rs. isLongChatRegistration env r"
  shows "\<exists>i<length rs. isLongChatRegistration env (rs ! i)
      \<and> (\<forall>j<i. \<not> isLongChatRegistration env (rs ! j))
      \<and> createChat_transform env chat fresh ldo =
         (None, ldo\<lparr>idx_references := Some
            (rs[i := (rs ! i)\<lparr>instances := Some
                 ((case instances (rs ! i) of None \<Rightarrow> [] | Some is \<Rightarrow> is) @ [chat])\<rparr>])\<rparr>)"
proof -
  from assms(2) obtain i where i: "findIndex (isLongChatRegistration env) rs = Some i"
    using findIndex_None_iff [of "isLongChatRegistration env" rs] by auto
  then have "i < length rs \<and> isLongChatRegistration env (rs ! i)
      \<and> (\<forall>j<i. \<not> isLongChatRegistration env (rs ! j))"
    by (simp add: findIndex_Some_iff)
  moreover have "createChat_transform env chat fresh ldo =
         (None, ldo\<lparr>idx_references := Some
            (rs[i := (rs ! i)\<lparr>instances := Some
                 ((case instances (rs ! i) of None \<Rightarrow> [] | Some is \<Rightarrow> is) @ [chat])\<rparr>])\<rparr>)"
    using assms(1) i by (simp add: createChat_transform_def)
  ultimately show ?thesis by blast
qed

lemma createChat_transform_new:
  assumes "idx_references ldo = None \<or>
     (\<exists>rs. idx_references ldo = Some rs \<and> (\<forall>r\<in>set rs. \<not> isLongChatRegistration env r))"
  shows "createChat_transform env chat fresh ldo =
     (None, ldo\<lparr>idx_references := Some
        ((case idx_references ldo of None \<Rightarrow> [] | Some rs \<Rightarrow> rs) @
         [\<lparr>reg_id = publicTypeIndex env @ ''#'' @ fresh, reg_type = ''TypeRegistration'',
           forClass = [''LongChat''], instances = Some [chat]\<rparr>])\<rparr>)"
  using assms
  by (auto simp: createChat_transform_def findIndex_None_iff [symmetric])

text \<open>
  Claim C7. A registration is one for the chat class when one of its \<open>forClass\<close> values
  is \<^verbatim>\<open>meeting.LongChat\<close> or \<^verbatim>\<open>LongChat\<close>. If the index has such a registration, the
  transform pushes the chat to the instances of the first one (starting from the empty
  list when the property is absent) and the list of registrations keeps its length.
  Otherwise it appends exactly one registration, with \<open>forClass = [LongChat]\<close> and
  \<open>instance = [chat]\<close>, to the registrations (starting from the empty list when the index
  has none). A successful run of useCreateChat stores the result of this transform on the
  private type index.
\<close>

theorem typeIndex_registration:
  "(isLongChatRegistration env registration \<longleftrightarrow>
      (\<exists>fc\<in>set (forClass registration). fc = meeting_LongChat env \<or> fc = ''LongChat''))
   \<and> (idx_references ldo = Some rs \<and> (\<exists>r\<in>set rs. isLongChatRegistration env r) \<longrightarrow>
        (\<exists>i<length rs. isLongChatRegistration env (rs ! i)
           \<and> (\<forall>j<i. \<not> isLongChatRegistration env (rs ! j))
           \<and> createChat_transform env chat fresh ldo =
              (None, ldo\<lparr>idx_references := Some
                 (rs[i := (rs ! i)\<lparr>instances := Some
                      ((case instances (rs ! i) of None \<Rightarrow> [] | Some is \<Rightarrow> is) @ [chat])\<rparr>])\<rparr>)))
   \<and> (idx_references ldo = None \<or>
        (\<exists>rs. idx_references ldo = Some rs \<and> (\<forall>r\<in>set rs. \<not> isLongChatRegistration env r)) \<longrightarrow>
        createChat_transform env chat fresh ldo =
          (None, ldo\<lparr>idx_references := Some
             ((case idx_references ldo of None \<Rightarrow> [] | Some rs \<Rightarrow> rs) @
              [\<lparr>reg_id = publicTypeIndex env @ ''#'' @ fresh, reg_type = ''TypeRegistration'',
                forClass = [''LongChat''], instances = Some [chat]\<rparr>])\<rparr>))
   \<and> (fst (useCreateChat env me otherPerson otherChat hospexContainer privateTypeIndex w) = Inr res \<longrightarrow>
        indexLdo (snd (useCreateChat env me otherPerson otherChat hospexContainer privateTypeIndex w))
          (privateTypeIndex, privateTypeIndex) =
        Some (snd (createChat_transform env (chatId res) (uuid_v4 env 3)
                (readIndexLdo w privateTypeIndex privateTypeIndex))))"
proof (intro conjI impI)
  show "isLongChatRegistration env registration \<longleftrightarrow>
      (\<exists>fc\<in>set (forClass registration). fc = meeting_LongChat env \<or> fc = ''LongChat'')"
    by (simp add: isLongChatRegistration_def list_ex_iff)
next
  assume "idx_references ldo = Some rs \<and> (\<exists>r\<in>set rs. isLongChatRegistration env r)"
  then show "\<exists>i<length rs. isLongChatRegistration env (rs ! i)
           \<and> (\<forall>j<i. \<not> isLongChatRegistration env (rs ! j))
           \<and> createChat_transform env chat fresh ldo =
              (None, ldo\<lparr>idx_references := Some
                 (rs[i := (rs ! i)\<lparr>instances := Some
                      ((case instances (rs ! i) of None \<Rightarrow> [] | Some is \<Rightarrow> is) @ [chat])\<rparr>])\<rparr>)"
    using createChat_transform_existing [of ldo rs env chat fresh] by blast
next
  assume "idx_references ldo = None \<or>
        (\<exists>rs. idx_references ldo = Some rs \<and> (\<forall>r\<in>set rs. \<not> isLongChatRegistration env r))"
  then show "createChat_transform env chat fresh ldo =
          (None, ldo\<lparr>idx_references := Some
             ((case idx_references ldo of None \<Rightarrow> [] | Some rs \<Rightarrow> rs) @
              [\<lparr>reg_id = publicTypeIndex env @ ''#'' @ fresh, reg_type = ''TypeRegistration'',
                forClass = [''LongChat''], instances = Some [chat]\<rparr>])\<rparr>)"
    by (rule createChat_transform_new)
next
  assume ok: "fst (useCreateChat env me otherPerson otherChat hospexContainer privateTypeIndex w) = Inr res"
  show "indexLdo (snd (useCreateChat env me otherPerson otherChat hospexContainer privateTypeIndex w))
          (privateTypeIndex, privateTypeIndex) =
        Some (snd (createChat_transform env (chatId res) (uuid_v4 env 3)
                (readIndexLdo w privateTypeIndex privateTypeIndex)))"
    using createChat_success [OF ok] by (simp split: option.splits)
qed

lemma example_registrations:
  "\<not> isLongChatRegistration (exampleEnv f) bookmarkRegistration"
  "isLongChatRegistration (exampleEnv f) (longChatRegistration chats)"
  by (simp_all add: isLongChatRegistration_def exampleEnv_simps bookmarkRegistration_def
      longChatRegistration_def)

theorem typeIndex_registration_witness:
  "createChat_transform (exampleEnv online) bobsChatId ''r1''
       (bobsIndexWith (Some [bookmarkRegistration, longChatRegistration None])) =
     (None, bobsIndexWith (Some [bookmarkRegistration, longChatRegistration (Some [bobsChatId])]))
   \<and> createChat_transform (exampleEnv online) bobsChatId ''r1''
       (bobsIndexWith (Some [bookmarkRegistration])) =
     (None, bobsIndexWith (Some [bookmarkRegistration, newRegistration]))
   \<and> indexLdo (snd (useCreateChat (exampleEnv online) bob alice None bobsHospex bobsTypeIndex
          (bobsPod None))) (bobsTypeIndex, bobsTypeIndex) =
     Some (bobsIndexWith (Some [newRegistration]))"
proof -
  let ?rs = "[bookmarkRegistration, longChatRegistration None]"
  have "idx_references (bobsIndexWith (Some ?rs)) = Some ?rs
      \<and> (\<exists>r\<in>set ?rs. isLongChatRegistration (exampleEnv online) r)"
    by (simp add: bobsIndexWith_def example_registrations)
  with typeIndex_registration
      [where env = "exampleEnv online" and ldo = "bobsIndexWith (Some ?rs)" and rs = ?rs
         and chat = bobsChatId and fresh = "''r1''"]
  obtain i where i: "i < length ?rs" "isLongChatRegistration (exampleEnv online) (?rs ! i)"
    and t: "createChat_transform (exampleEnv online) bobsChatId ''r1'' (bobsIndexWith (Some ?rs)) =
      (None, (bobsIndexWith (Some ?rs))\<lparr>idx_references := Some
         (?rs[i := (?rs ! i)\<lparr>instances := Some
              ((case instances (?rs ! i) of None \<Rightarrow> [] | Some is \<Rightarrow> is) @ [bobsChatId])\<rparr>])\<rparr>)"
    by blast
  from i have "i = 1"
    by (cases i) (simp_all add: example_registrations)
  with t have 1: "createChat_transform (exampleEnv online) bobsChatId ''r1''
       (bobsIndexWith (Some ?rs)) =
     (None, bobsIndexWith (Some [bookmarkRegistration, longChatRegistration (Some [bobsChatId])]))"
    by (simp add: bobsIndexWith_def longChatRegistration_def)
  have "idx_references (bobsIndexWith (Some [bookmarkRegistration])) = None \<or>
      (\<exists>rs. idx_references (bobsIndexWith (Some [bookmarkRegistration])) = Some rs \<and>
         (\<forall>r\<in>set rs. \<not> isLongChatRegistration (exampleEnv online) r))"
    by (simp add: bobsIndexWith_def example_registrations)
  with typeIndex_registration
      [where env = "exampleEnv online" and ldo = "bobsIndexWith (Some [bookmarkRegistration])"
         and chat = bobsChatId and fresh = "''r1''"]
  have 2: "createChat_transform (exampleEnv online) bobsChatId ''r1''
       (bobsIndexWith (Some [bookmarkRegistration])) =
     (None, bobsIndexWith (Some [bookmarkRegistration, newRegistration]))"
    by (simp add: bobsIndexWith_def newRegistration_def exampleEnv_simps)
  have "createChat_transform (exampleEnv online) bobsChatId ''r1'' (bobsIndexWith None) =
     (None, bobsIndexWith (Some [newRegistration]))"
    by (simp add: createChat_transform_def bobsIndexWith_def newRegistration_def exampleEnv_simps)
  moreover have "readIndexLdo (bobsPod None) bobsTypeIndex bobsTypeIndex = bobsIndexWith None"
    by (simp add: readIndexLdo_def bobsPod_def bobsIndexWith_def)
  ultimately have 3: "indexLdo (snd (useCreateChat (exampleEnv online) bob alice None bobsHospex
          bobsTypeIndex (bobsPod None))) (bobsTypeIndex, bobsTypeIndex) =
     Some (bobsIndexWith (Some [newRegistration]))"
    using example_createChat_succeeds
      typeIndex_registration
        [where env = "exampleEnv online" and me = bob and otherPerson = alice and otherChat = None
           and hospexContainer = bobsHospex and privateTypeIndex = bobsTypeIndex
           and w = "bobsPod None"
           and res = "\<lparr>chatContainer = ''https://bob.example/hospex/messages/b1/'',
              chatFile = ''https://bob.example/hospex/messages/b1/index.ttl'',
              chatId = ''https://bob.example/hospex/messages/b1/index.ttl#this''\<rparr>"]
    by (simp add: exampleEnv_simps bobsChatId_def)
  from 1 2 3 show ?thesis by blast
qed

section \<open>MessageAppender: the document of the day\<close>

declare digits.simps [simp del]

lemma digitValue_digitChar: "d < 10 \<Longrightarrow> digitValue (digitChar d) = d"
proof -
  assume "d < 10"
  then have "d \<in> {0, 1, 2, 3, 4, 5, 6, 7, 8, 9}" by auto
  then show ?thesis
    by (auto simp: digitChar_def digitValue_def)
qed

lemma readNat_snoc: "readNat (s @ [c]) = 10 * readNat s + digitValue c"
  by (simp add: readNat_def)

lemma readNat_digits: "readNat (digits n) = n"
proof (induction n rule: digits.induct)
  case (1 n)
  show ?case
  proof (cases "n < 10")
    case True
    then show ?thesis
      by (simp add: digits.simps [of n] readNat_def digitValue_digitChar)
  next
    case False
    then have "readNat (digits (n div 10)) = n div 10" by (rule "1.IH")
    with False show ?thesis
      by (simp add: digits.simps [of n] readNat_snoc digitValue_digitChar)
  qed
qed

lemma readNat_zeros: "readNat (replicate k CHR ''0'' @ s) = readNat s"
proof -
  have "foldl (\<lambda>a c. 10 * a + digitValue c) 0 (replicate k CHR ''0'') = 0"
    by (induction k) (simp_all add: digitValue_def)
  then show ?thesis by (simp add: readNat_def)
qed

lemma readNat_padStart: "readNat (padStart n CHR ''0'' (digits m)) = m"
  by (simp add: padStart_def readNat_zeros readNat_digits)

lemma length_digits: "m < 100 \<Longrightarrow> length (digits m) \<le> 2"
proof (cases "m < 10")
  case True
  then show ?thesis by (simp add: digits.simps [of m])
next
  case False
  assume "m < 100"
  then have "m div 10 < 10" by simp
  with False show ?thesis
    by (simp add: digits.simps [of m] digits.simps [of "m div 10"])
qed

lemma length_padStart: "length (padStart n c s) = max n (length s)"
  by (simp add: padStart_def)

lemma length_pad2: "m < 100 \<Longrightarrow> length (padStart 2 CHR ''0'' (digits m)) = 2"
  using length_digits [of m] by (simp add: length_padStart)

lemma format_same_date:
  "calendarDate a = calendarDate b \<Longrightarrow> format_YYYY_MM_DD a = format_YYYY_MM_DD b"
  by (simp add: calendarDate_def format_YYYY_MM_DD_def)

lemma format_inj:
  assumes "validDate (calendarDate a)" "validDate (calendarDate b)"
    and eq: "format_YYYY_MM_DD a = format_YYYY_MM_DD b"
  shows "calendarDate a = calendarDate b"
proof -
  let ?y = "\<lambda>t. padStart 4 CHR ''0'' (digits (year t))"
  let ?m = "\<lambda>t. padStart 2 CHR ''0'' (digits (month t))"
  let ?d = "\<lambda>t. padStart 2 CHR ''0'' (digits (day t))"
  from assms(1,2) have b: "month a < 100" "day a < 100" "month b < 100" "day b < 100"
    by (simp_all add: validDate_def calendarDate_def)
  then have len: "length (?m a) = 2" "length (?d a) = 2" "length (?m b) = 2" "length (?d b) = 2"
    by (simp_all add: length_pad2)
  from eq have "?y a @ (''/'' @ ?m a @ ''/'' @ ?d a) = ?y b @ (''/'' @ ?m b @ ''/'' @ ?d b)"
    by (simp add: format_YYYY_MM_DD_def)
  moreover have "length (''/'' @ ?m a @ ''/'' @ ?d a) = length (''/'' @ ?m b @ ''/'' @ ?d b)"
    using len by simp
  ultimately have y: "?y a = ?y b" and rest: "?m a @ (''/'' @ ?d a) = ?m b @ (''/'' @ ?d b)"
    by simp_all
  from rest len have m: "?m a = ?m b" and d: "?d a = ?d b"
    by simp_all
  from y have "readNat (?y a) = readNat (?y b)" by simp
  then have "year a = year b" by (simp add: readNat_padStart)
  moreover from m have "readNat (?m a) = readNat (?m b)" by simp
  then have "month a = month b" by (simp add: readNat_padStart)
  moreover from d have "readNat (?d a) = readNat (?d b)" by simp
  then have "day a = day b" by (simp add: readNat_padStart)
  ultimately show ?thesis by (simp add: calendarDate_def)
qed

lemma createMessage_newCalls:
  "newCalls w (snd (useCreateMessage env senderId content chat w)) =
     [UpdateCall (getContainer env chat @ format_YYYY_MM_DD (clock env 2) @ ''/chat.ttl'') chat]"
  using updateChatLdo_calls [of env
      "getContainer env chat @ format_YYYY_MM_DD (clock env 2) @ ''/chat.ttl''" chat
      "createMessage_transform
         (getContainer env chat @ format_YYYY_MM_DD (clock env 0) @ ''/chat.ttl'' @ ''#msg-'' @ uuid_v4 env 0)
         (toISOString (clock env 1)) content senderId" w]
  by (cases "updateChatLdo env
      (getContainer env chat @ format_YYYY_MM_DD (clock env 2) @ ''/chat.ttl'') chat
      (createMessage_transform
         (getContainer env chat @ format_YYYY_MM_DD (clock env 0) @ ''/chat.ttl'' @ ''#msg-'' @ uuid_v4 env 0)
         (toISOString (clock env 1)) content senderId) w")
    (auto simp: useCreateMessage_def Let_def newCalls_def split: sum.splits)

lemma createMessage_result:
  assumes "fst (useCreateMessage env senderId content chat w) = Inr res"
  shows "res = \<lparr>messageId = getContainer env chat @ format_YYYY_MM_DD (clock env 0) @
                   ''/chat.ttl'' @ ''#msg-'' @ uuid_v4 env 0,
                 todayChat = getContainer env chat @ format_YYYY_MM_DD (clock env 0) @ ''/chat.ttl'',
                 createdAt = toISOString (clock env 1)\<rparr>
     \<and> chatLdo (snd (useCreateMessage env senderId content chat w))
          (getContainer env chat @ format_YYYY_MM_DD (clock env 2) @ ''/chat.ttl'', chat) =
        Some ((readChatLdo w (getContainer env chat @ format_YYYY_MM_DD (clock env 2) @ ''/chat.ttl'') chat)
          \<lparr>message := Some
             ((case message (readChatLdo w
                   (getContainer env chat @ format_YYYY_MM_DD (clock env 2) @ ''/chat.ttl'') chat) of
                 None \<Rightarrow> [] | Some ms \<Rightarrow> ms) @
              [\<lparr>msg_id = messageId res, msg_created = createdAt res, msg_content = content,
                msg_maker = senderId\<rparr>])\<rparr>)"
  using assms
  by (auto simp: useCreateMessage_def updateChatLdo_def createMessage_transform_def Let_def
      split: option.splits)

text \<open>
  What holds when both readings of \<^verbatim>\<open>dayjs()\<close> in a call show the same calendar date.
  Take two such calls of useCreateMessage for the same chat (with the same
  \<^verbatim>\<open>getContainer\<close>), one on the date \<open>d1\<close> and one on \<open>d2\<close>. Each makes exactly one
  update call, on the document \<^verbatim>\<open><container-of-chat><YYYY/MM/DD>/chat.ttl\<close> of its date;
  the two documents are the same exactly when the dates are the same. A call that succeeds
  returns that document as \<open>todayChat\<close>, its \<open>messageId\<close> is the document followed by
  \<^verbatim>\<open>#msg-\<close> and the fresh identifier, and the message with that id is the last one of
  the chat in that document. The code does not ensure the condition: see the theorem at
  the end of this section.
\<close>

lemma createMessage_documents_when_readings_agree:
  assumes "getContainer env2 chat = getContainer env1 chat"
    and "calendarDate (clock env1 0) = d1" "calendarDate (clock env1 2) = d1" "validDate d1"
    and "calendarDate (clock env2 0) = d2" "calendarDate (clock env2 2) = d2" "validDate d2"
  shows "\<exists>u1 u2.
      u1 = getContainer env1 chat @ format_YYYY_MM_DD (clock env1 0) @ ''/chat.ttl''
    \<and> u2 = getContainer env2 chat @ format_YYYY_MM_DD (clock env2 0) @ ''/chat.ttl''
    \<and> newCalls w1 (snd (useCreateMessage env1 sender1 content1 chat w1)) = [UpdateCall u1 chat]
    \<and> newCalls w2 (snd (useCreateMessage env2 sender2 content2 chat w2)) = [UpdateCall u2 chat]
    \<and> (u1 = u2 \<longleftrightarrow> d1 = d2)
    \<and> (\<forall>res. fst (useCreateMessage env1 sender1 content1 chat w1) = Inr res \<longrightarrow>
          todayChat res = u1 \<and> messageId res = u1 @ ''#msg-'' @ uuid_v4 env1 0
          \<and> (\<exists>ldo ms. chatLdo (snd (useCreateMessage env1 sender1 content1 chat w1)) (u1, chat) = Some ldo
                \<and> message ldo = Some (ms @ [\<lparr>msg_id = messageId res, msg_created = createdAt res,
                                              msg_content = content1, msg_maker = sender1\<rparr>])))"
proof -
  let ?u1 = "getContainer env1 chat @ format_YYYY_MM_DD (clock env1 0) @ ''/chat.ttl''"
  let ?u2 = "getContainer env2 chat @ format_YYYY_MM_DD (clock env2 0) @ ''/chat.ttl''"
  have f1: "format_YYYY_MM_DD (clock env1 2) = format_YYYY_MM_DD (clock env1 0)"
    using assms(2,3) by (simp add: format_same_date)
  have f2: "format_YYYY_MM_DD (clock env2 2) = format_YYYY_MM_DD (clock env2 0)"
    using assms(5,6) by (simp add: format_same_date)
  have c1: "newCalls w1 (snd (useCreateMessage env1 sender1 content1 chat w1)) = [UpdateCall ?u1 chat]"
    by (simp add: createMessage_newCalls f1)
  have c2: "newCalls w2 (snd (useCreateMessage env2 sender2 content2 chat w2)) = [UpdateCall ?u2 chat]"
    by (simp add: createMessage_newCalls f2)
  have "?u1 = ?u2 \<longleftrightarrow> format_YYYY_MM_DD (clock env1 0) = format_YYYY_MM_DD (clock env2 0)"
    using assms(1) by simp
  also have "\<dots> \<longleftrightarrow> calendarDate (clock env1 0) = calendarDate (clock env2 0)"
    using format_inj [of "clock env1 0" "clock env2 0"] format_same_date [of "clock env1 0" "clock env2 0"]
      assms(2,4,5,7) by blast
  finally have same: "?u1 = ?u2 \<longleftrightarrow> d1 = d2"
    using assms(2,5) by simp
  have r: "\<forall>res. fst (useCreateMessage env1 sender1 content1 chat w1) = Inr res \<longrightarrow>
          todayChat res = ?u1 \<and> messageId res = ?u1 @ ''#msg-'' @ uuid_v4 env1 0
          \<and> (\<exists>ldo ms. chatLdo (snd (useCreateMessage env1 sender1 content1 chat w1)) (?u1, chat) = Some ldo
                \<and> message ldo = Some (ms @ [\<lparr>msg_id = messageId res, msg_created = createdAt res,
                                              msg_content = content1, msg_maker = sender1\<rparr>]))"
  proof (intro allI impI)
    fix res
    assume ok: "fst (useCreateMessage env1 sender1 content1 chat w1) = Inr res"
    from createMessage_result [OF ok] show "todayChat res = ?u1 \<and> messageId res = ?u1 @ ''#msg-'' @ uuid_v4 env1 0
          \<and> (\<exists>ldo ms. chatLdo (snd (useCreateMessage env1 sender1 content1 chat w1)) (?u1, chat) = Some ldo
                \<and> message ldo = Some (ms @ [\<lparr>msg_id = messageId res, msg_created = createdAt res,
                                              msg_content = content1, msg_maker = sender1\<rparr>]))"
      by (simp add: f1)
  qed
  from c1 c2 same r show ?thesis by blast
qed

lemma example_formats:
  "format_YYYY_MM_DD exampleInstant = ''2024/05/17''"
  "format_YYYY_MM_DD nextDay = ''2024/05/18''"
  by (simp_all add: format_YYYY_MM_DD_def padStart_def digits.simps digitChar_def
      exampleInstant_def nextDay_def)

lemma example_container:
  "getContainer (exampleEnv f) alicesChatId = ''https://alice.example/hospex/messages/a1/''"
  by (simp add: exampleEnv_def alicesChatId_def)

lemma example_createMessage_succeeds:
  "\<exists>res. fst (useCreateMessage (exampleEnv online) alice ''Hello Bob'' alicesChatId alicesPod) = Inr res"
  by (simp add: useCreateMessage_def updateChatLdo_def createMessage_transform_def Let_def
      exampleEnv_simps online_def)

lemma createMessage_documents_example:
  "newCalls alicesPod (snd (useCreateMessage (exampleEnv online) alice ''Hello Bob'' alicesChatId alicesPod)) =
     [UpdateCall ''https://alice.example/hospex/messages/a1/2024/05/17/chat.ttl'' alicesChatId]
   \<and> newCalls alicesPod (snd (useCreateMessage ((exampleEnv online)\<lparr>clock := (\<lambda>n. nextDay)\<rparr>) alice
        ''Good morning'' alicesChatId alicesPod)) =
     [UpdateCall ''https://alice.example/hospex/messages/a1/2024/05/18/chat.ttl'' alicesChatId]
   \<and> (\<exists>res. fst (useCreateMessage (exampleEnv online) alice ''Hello Bob'' alicesChatId alicesPod) = Inr res
        \<and> todayChat res = ''https://alice.example/hospex/messages/a1/2024/05/17/chat.ttl''
        \<and> messageId res = ''https://alice.example/hospex/messages/a1/2024/05/17/chat.ttl#msg-b1'')"
proof -
  let ?env2 = "(exampleEnv online)\<lparr>clock := (\<lambda>n. nextDay)\<rparr>"
  have h: "getContainer ?env2 alicesChatId = getContainer (exampleEnv online) alicesChatId"
    "calendarDate (clock (exampleEnv online) 0) = (2024, 5, 17)"
    "calendarDate (clock (exampleEnv online) 2) = (2024, 5, 17)" "validDate (2024, 5, 17)"
    "calendarDate (clock ?env2 0) = (2024, 5, 18)"
    "calendarDate (clock ?env2 2) = (2024, 5, 18)" "validDate (2024, 5, 18)"
    by (simp_all add: exampleEnv_simps exampleInstant_def nextDay_def calendarDate_def validDate_def)
  have e: "clock ?env2 0 = nextDay" "getContainer ?env2 alicesChatId =
      ''https://alice.example/hospex/messages/a1/''"
    by (simp_all add: example_container)
  from createMessage_documents_when_readings_agree [OF h, of alicesPod alice "''Hello Bob''" alicesPod alice
      "''Good morning''"]
  have "newCalls alicesPod (snd (useCreateMessage (exampleEnv online) alice ''Hello Bob'' alicesChatId alicesPod)) =
     [UpdateCall ''https://alice.example/hospex/messages/a1/2024/05/17/chat.ttl'' alicesChatId]
   \<and> newCalls alicesPod (snd (useCreateMessage ?env2 alice ''Good morning'' alicesChatId alicesPod)) =
     [UpdateCall ''https://alice.example/hospex/messages/a1/2024/05/18/chat.ttl'' alicesChatId]
   \<and> (\<forall>res. fst (useCreateMessage (exampleEnv online) alice ''Hello Bob'' alicesChatId alicesPod) = Inr res
        \<longrightarrow> todayChat res = ''https://alice.example/hospex/messages/a1/2024/05/17/chat.ttl''
        \<and> messageId res = ''https://alice.example/hospex/messages/a1/2024/05/17/chat.ttl#msg-b1'')"
    by (simp add: e example_container example_formats exampleEnv_simps)
  with example_createMessage_succeeds show ?thesis by blast
qed

lemma midnight_formats:
  "format_YYYY_MM_DD beforeMidnight = ''2024/05/17''"
  "format_YYYY_MM_DD afterMidnight = ''2024/05/18''"
  by (simp_all add: format_YYYY_MM_DD_def padStart_def digits.simps digitChar_def
      beforeMidnight_def afterMidnight_def)

lemma midnightEnv_simps:
  "clock midnightEnv n = (if n < 2 then beforeMidnight else afterMidnight)"
  "clock eveningEnv n = beforeMidnight"
  "toISOString beforeMidnight = ''2024-05-17T23:59:59.999Z''"
  "uuid_v4 midnightEnv 0 = ''b1''" "uuid_v4 eveningEnv 0 = ''b1''"
  "rejects midnightEnv c = None" "rejects eveningEnv c = None"
  "getContainer midnightEnv alicesChatId = ''https://alice.example/hospex/messages/a1/''"
  "getContainer eveningEnv alicesChatId = ''https://alice.example/hospex/messages/a1/''"
  by (simp_all add: midnightEnv_def eveningEnv_def exampleEnv_simps online_def example_container
      beforeMidnight_def)

text \<open>
  Claim C6. The claim has one log document per call, \<^verbatim>\<open><container-of-chat><YYYY/MM/DD>/chat.ttl\<close>:
  the document that is written, the document returned as \<open>todayChat\<close> and the prefix of
  the message id are the same, and two messages created on the same calendar date go to
  the same document. The code reads \<^verbatim>\<open>dayjs()\<close> once for \<open>chatFile\<close> (the id and
  \<open>todayChat\<close>) and once more for the \<open>uri\<close> of the mutation. In a call that begins
  at 23:59:59.999 on 2024-05-17 and reaches the mutation after midnight, the update is made
  on the document of the 18th, while \<open>todayChat\<close> and the message id name the document
  of the 17th, which holds no message afterwards; the message stored in the document of the
  18th carries the id of the 17th. A call of the same evening whose readings all fall
  before midnight has the same \<open>createdAt\<close> date and writes the document of the 17th:
  two messages created on the same date, two documents.
\<close>

theorem createMessage_across_midnight:
  "fst (useCreateMessage midnightEnv alice ''Hello Bob'' alicesChatId alicesPod) =
     Inr \<lparr>messageId = ''https://alice.example/hospex/messages/a1/2024/05/17/chat.ttl#msg-b1'',
          todayChat = ''https://alice.example/hospex/messages/a1/2024/05/17/chat.ttl'',
          createdAt = ''2024-05-17T23:59:59.999Z''\<rparr>
   \<and> newCalls alicesPod (snd (useCreateMessage midnightEnv alice ''Hello Bob'' alicesChatId alicesPod)) =
     [UpdateCall ''https://alice.example/hospex/messages/a1/2024/05/18/chat.ttl'' alicesChatId]
   \<and> chatLdo (snd (useCreateMessage midnightEnv alice ''Hello Bob'' alicesChatId alicesPod))
       (''https://alice.example/hospex/messages/a1/2024/05/17/chat.ttl'', alicesChatId) = None
   \<and> map_option message
       (chatLdo (snd (useCreateMessage midnightEnv alice ''Hello Bob'' alicesChatId alicesPod))
          (''https://alice.example/hospex/messages/a1/2024/05/18/chat.ttl'', alicesChatId)) =
     Some (Some [\<lparr>msg_id = ''https://alice.example/hospex/messages/a1/2024/05/17/chat.ttl#msg-b1'',
                   msg_created = ''2024-05-17T23:59:59.999Z'', msg_content = ''Hello Bob'',
                   msg_maker = alice\<rparr>])
   \<and> fst (useCreateMessage eveningEnv alice ''Hello Bob'' alicesChatId alicesPod) =
     Inr \<lparr>messageId = ''https://alice.example/hospex/messages/a1/2024/05/17/chat.ttl#msg-b1'',
          todayChat = ''https://alice.example/hospex/messages/a1/2024/05/17/chat.ttl'',
          createdAt = ''2024-05-17T23:59:59.999Z''\<rparr>
   \<and> newCalls alicesPod (snd (useCreateMessage eveningEnv alice ''Hello Bob'' alicesChatId alicesPod)) =
     [UpdateCall ''https://alice.example/hospex/messages/a1/2024/05/17/chat.ttl'' alicesChatId]"
  by (simp add: useCreateMessage_def updateChatLdo_def createMessage_transform_def Let_def
      newCalls_def readChatLdo_def alicesPod_def midnightEnv_simps midnight_formats)

end
